theory Spec2Isabelle
  imports Complex_Main "HOL-Library.Multiset"
begin

section \<open>JavaScript numbers\<close>

text \<open>
  The program computes with the JavaScript type \<open>number\<close>. A finite number is modelled by
  the real it denotes (the sign of zero is not modelled); the three values that arithmetic
  can produce beyond the finite ones are kept apart, because division by zero does not fail
  in JavaScript: it yields an infinity or \<open>NaN\<close>. The operations \<open>js_add\<close>, \<open>js_mul\<close>
  and \<open>js_div\<close> compute on finite numbers without rounding and without overflow; the
  operations \<open>fl_add\<close>, \<open>fl_mul\<close> and \<open>fl_div\<close> of the subsection on double precision
  round each result as IEEE 754 binary64 does, and are used for \<open>calculateTargetPrice\<close>,
  where rounding decides the property at stake.
\<close>

datatype jsnum = Fin real | PInf | NInf | NaN

fun js_neg :: "jsnum \<Rightarrow> jsnum" where
  "js_neg (Fin a) = Fin (- a)"
| "js_neg PInf = NInf"
| "js_neg NInf = PInf"
| "js_neg NaN = NaN"

fun js_add :: "jsnum \<Rightarrow> jsnum \<Rightarrow> jsnum" where
  "js_add (Fin a) (Fin b) = Fin (a + b)"
| "js_add NaN _ = NaN"
| "js_add _ NaN = NaN"
| "js_add PInf NInf = NaN"
| "js_add NInf PInf = NaN"
| "js_add PInf _ = PInf"
| "js_add _ PInf = PInf"
| "js_add NInf _ = NInf"
| "js_add _ NInf = NInf"

definition js_sub :: "jsnum \<Rightarrow> jsnum \<Rightarrow> jsnum" where
  "js_sub x y = js_add x (js_neg y)"

fun js_mul :: "jsnum \<Rightarrow> jsnum \<Rightarrow> jsnum" where
  "js_mul (Fin a) (Fin b) = Fin (a * b)"
| "js_mul NaN _ = NaN"
| "js_mul _ NaN = NaN"
| "js_mul (Fin a) PInf = (if a = 0 then NaN else if 0 < a then PInf else NInf)"
| "js_mul (Fin a) NInf = (if a = 0 then NaN else if 0 < a then NInf else PInf)"
| "js_mul PInf (Fin b) = (if b = 0 then NaN else if 0 < b then PInf else NInf)"
| "js_mul NInf (Fin b) = (if b = 0 then NaN else if 0 < b then NInf else PInf)"
| "js_mul PInf PInf = PInf"
| "js_mul PInf NInf = NInf"
| "js_mul NInf PInf = NInf"
| "js_mul NInf NInf = PInf"

text \<open>Division: a finite number divided by zero is an infinity of its sign, \<open>0 / 0\<close> is \<open>NaN\<close>.\<close>

fun js_div :: "jsnum \<Rightarrow> jsnum \<Rightarrow> jsnum" where
  "js_div (Fin a) (Fin b) =
     (if b = 0 then (if a = 0 then NaN else if 0 < a then PInf else NInf) else Fin (a / b))"
| "js_div NaN _ = NaN"
| "js_div _ NaN = NaN"
| "js_div (Fin a) PInf = Fin 0"
| "js_div (Fin a) NInf = Fin 0"
| "js_div PInf (Fin b) = (if 0 \<le> b then PInf else NInf)"
| "js_div NInf (Fin b) = (if 0 \<le> b then NInf else PInf)"
| "js_div PInf PInf = NaN"
| "js_div PInf NInf = NaN"
| "js_div NInf PInf = NaN"
| "js_div NInf NInf = NaN"

text \<open>Comparisons: every comparison with \<open>NaN\<close> is false.\<close>

fun js_lt :: "jsnum \<Rightarrow> jsnum \<Rightarrow> bool" where
  "js_lt (Fin a) (Fin b) = (a < b)"
| "js_lt NaN _ = False"
| "js_lt _ NaN = False"
| "js_lt NInf NInf = False"
| "js_lt NInf _ = True"
| "js_lt PInf _ = False"
| "js_lt (Fin a) PInf = True"
| "js_lt (Fin a) NInf = False"

fun js_le :: "jsnum \<Rightarrow> jsnum \<Rightarrow> bool" where
  "js_le (Fin a) (Fin b) = (a \<le> b)"
| "js_le NaN _ = False"
| "js_le _ NaN = False"
| "js_le NInf _ = True"
| "js_le _ PInf = True"
| "js_le PInf _ = False"
| "js_le (Fin a) NInf = False"

definition js_gt :: "jsnum \<Rightarrow> jsnum \<Rightarrow> bool" where
  "js_gt x y = js_lt y x"

definition js_ge :: "jsnum \<Rightarrow> jsnum \<Rightarrow> bool" where
  "js_ge x y = js_le y x"

fun js_abs :: "jsnum \<Rightarrow> jsnum" where
  "js_abs (Fin a) = Fin \<bar>a\<bar>"
| "js_abs PInf = PInf"
| "js_abs NInf = PInf"
| "js_abs NaN = NaN"

text \<open>\<open>Math.max\<close> of two numbers: \<open>NaN\<close> if either is.\<close>

fun js_max :: "jsnum \<Rightarrow> jsnum \<Rightarrow> jsnum" where
  "js_max NaN _ = NaN"
| "js_max _ NaN = NaN"
| "js_max x y = (if js_lt x y then y else x)"

text \<open>Truthiness of a number, and \<open>x || y\<close> on numbers: zero and \<open>NaN\<close> are falsy.\<close>

fun js_truthy :: "jsnum \<Rightarrow> bool" where
  "js_truthy (Fin a) = (a \<noteq> 0)"
| "js_truthy NaN = False"
| "js_truthy _ = True"

definition js_or :: "jsnum \<Rightarrow> jsnum \<Rightarrow> jsnum" where
  "js_or x y = (if js_truthy x then x else y)"

subsection \<open>Double precision\<close>

text \<open>
  A JavaScript number is an IEEE 754 binary64 value and every arithmetic operation returns
  the exact result rounded to the nearest such value, ties to the even mantissa. A positive
  real is brought to the form \<open>y * 2 ^ e\<close> with \<open>2 ^ 52 \<le> y < 2 ^ 53\<close> by halving
  (\<open>scaleDown\<close>) and doubling (\<open>scaleUp\<close>); below the normal range the exponent stays at
  \<open>- 1074\<close> (subnormal numbers); the mantissa \<open>y\<close> is rounded to an integer, half to even;
  a rounded magnitude of \<open>2 ^ 1024\<close> or more is an infinity.
\<close>

definition roundHalfEven :: "real \<Rightarrow> int" where
  "roundHalfEven y =
     (let f = \<lfloor>y\<rfloor>; r = y - of_int f
      in if r < 1 / 2 then f else if 1 / 2 < r then f + 1 else if even f then f else f + 1)"

function scaleDown :: "real \<Rightarrow> int \<Rightarrow> real \<times> int" where
  "scaleDown y e = (if 2 ^ 53 \<le> y then scaleDown (y / 2) (e + 1) else (y, e))"
  by pat_completeness auto
termination
proof (relation "measure (\<lambda>(y, e). nat \<lfloor>log 2 y\<rfloor>)")
  show "wf (measure (\<lambda>(y, e). nat \<lfloor>log 2 y\<rfloor>))" by simp
next
  fix y :: real and e :: int
  assume a: "2 ^ 53 \<le> y"
  have "(0::real) < 2 ^ 53" by simp
  with a have p: "0 < y" by linarith
  then have l: "log 2 (y / 2) = log 2 y - 1" by (simp add: log_divide)
  from a p have "53 \<le> log 2 y" by (simp add: le_log_iff)
  then have "53 \<le> \<lfloor>log 2 y\<rfloor>" by (simp add: le_floor_iff)
  moreover have "\<lfloor>log 2 (y / 2)\<rfloor> = \<lfloor>log 2 y\<rfloor> - 1"
    unfolding l by simp
  ultimately show "((y / 2, e + 1), (y, e)) \<in> measure (\<lambda>(y, e). nat \<lfloor>log 2 y\<rfloor>)"
    by simp
qed

function scaleUp :: "real \<Rightarrow> int \<Rightarrow> real \<times> int" where
  "scaleUp y e = (if 0 < y \<and> y < 2 ^ 52 then scaleUp (2 * y) (e - 1) else (y, e))"
  by pat_completeness auto
termination
proof (relation "measure (\<lambda>(y, e). nat \<lceil>52 - log 2 y\<rceil>)")
  show "wf (measure (\<lambda>(y, e). nat \<lceil>52 - log 2 y\<rceil>))" by simp
next
  fix y :: real and e :: int
  assume a: "0 < y \<and> y < 2 ^ 52"
  then have l: "log 2 (2 * y) = 1 + log 2 y" by (simp add: log_mult)
  from a have "log 2 y < 52" by (simp add: log_less_iff)
  then have "0 < 52 - log 2 y" by simp
  then have "1 \<le> \<lceil>52 - log 2 y\<rceil>" by (simp add: less_ceiling_iff)
  moreover have "52 - log 2 (2 * y) = (52 - log 2 y) - 1"
    unfolding l by simp
  then have "\<lceil>52 - log 2 (2 * y)\<rceil> = \<lceil>52 - log 2 y\<rceil> - 1"
    by (simp only: ceiling_diff_one)
  ultimately show "((2 * y, e - 1), (y, e)) \<in> measure (\<lambda>(y, e). nat \<lceil>52 - log 2 y\<rceil>)"
    by simp
qed

definition pow2 :: "int \<Rightarrow> real" where
  "pow2 e = (if 0 \<le> e then 2 ^ nat e else 1 / 2 ^ nat (- e))"

definition normalise :: "real \<Rightarrow> real \<times> int" where
  "normalise y = (let (y1, e1) = scaleDown y 0 in scaleUp y1 e1)"

definition mantissa_exponent :: "real \<Rightarrow> real \<times> int" where
  "mantissa_exponent x =
     (let (y, e) = normalise x
      in if e < - 1074 then (y * pow2 (e + 1074), - 1074) else (y, e))"

definition round_pos :: "real \<Rightarrow> real" where
  "round_pos x = (let (y, e) = mantissa_exponent x in of_int (roundHalfEven y) * pow2 e)"

definition round_double :: "real \<Rightarrow> jsnum" where
  "round_double x =
     (if x = 0 then Fin 0
      else let r = round_pos \<bar>x\<bar>
        in if 2 ^ 1024 \<le> r then (if 0 < x then PInf else NInf) else Fin (sgn x * r))"

text \<open>A real is a double when rounding leaves it unchanged.\<close>

definition is_double :: "real \<Rightarrow> bool" where
  "is_double x = (round_double x = Fin x)"

text \<open>The arithmetic operations of JavaScript: the exact result, rounded.\<close>

fun js_round :: "jsnum \<Rightarrow> jsnum" where
  "js_round (Fin a) = round_double a"
| "js_round x = x"

definition fl_add :: "jsnum \<Rightarrow> jsnum \<Rightarrow> jsnum" where
  "fl_add x y = js_round (js_add x y)"

definition fl_mul :: "jsnum \<Rightarrow> jsnum \<Rightarrow> jsnum" where
  "fl_mul x y = js_round (js_mul x y)"

definition fl_div :: "jsnum \<Rightarrow> jsnum \<Rightarrow> jsnum" where
  "fl_div x y = js_round (js_div x y)"

section \<open>Calculation utilities (src/lib/calculations.ts)\<close>

subsection \<open>getDynamicProfitTarget\<close>

definition getDynamicProfitTarget :: "jsnum \<Rightarrow> jsnum \<Rightarrow> jsnum" where
  "getDynamicProfitTarget baseTarget usedCapitalPercent =
     (if js_gt usedCapitalPercent (Fin 90) then js_mul baseTarget (Fin 0.52)
      else if js_gt usedCapitalPercent (Fin 80) then js_mul baseTarget (Fin 0.67)
      else if js_gt usedCapitalPercent (Fin 70) then js_mul baseTarget (Fin 0.83)
      else baseTarget)"

subsection \<open>Data (src/types)\<close>

text \<open>
  A date string is read by the code only through \<open>new Date(s).getTime()\<close>; the records hold
  that time value (milliseconds, an integer). A string that is not a date (time value
  \<open>NaN\<close>, for which the order produced by \<open>Array.prototype.sort\<close> is left to the
  implementation) is outside the model.
\<close>

record Holding =
  holdingId :: nat
  etfId :: nat
  etfSymbol :: string
  etfName :: string
  buyDate :: int
  buyPrice :: jsnum
  quantity :: jsnum
  createdAt :: string

record Settings =
  profitTargetPercent :: jsnum
  minProfitAmount :: jsnum
  perTransactionAmount :: jsnum
  totalCapital :: jsnum
  minVolume :: "jsnum option"
  averagingThreshold :: "jsnum option"
  maxDailyBuys :: "jsnum option"
  maxDailySells :: "jsnum option"

datatype CashFlowType = INVESTMENT | RETURN | CAPITAL_ADD | CAPITAL_WITHDRAW

record CashFlow =
  cf_date :: int
  cf_amount :: jsnum
  cf_type :: CashFlowType

subsection \<open>calculateTargetPrice\<close>

text \<open>Each of the five arithmetic operations rounds its result to a double.\<close>

definition calculateTargetPrice :: "jsnum \<Rightarrow> jsnum \<Rightarrow> Settings \<Rightarrow> jsnum" where
  "calculateTargetPrice avgPrice qty settings =
     (let targetByPercent =
            fl_mul avgPrice (fl_add (Fin 1) (fl_div (profitTargetPercent settings) (Fin 100)));
          targetByMinProfit =
            fl_div (fl_add (fl_mul avgPrice qty) (minProfitAmount settings)) qty
      in js_max targetByPercent targetByMinProfit)"

subsection \<open>shouldAverage, shouldSIP\<close>

definition shouldAverage :: "jsnum \<Rightarrow> jsnum \<Rightarrow> bool" where
  "shouldAverage lastBuyPrice currentPrice =
     (let dropPercent =
            js_mul (js_div (js_sub lastBuyPrice currentPrice) lastBuyPrice) (Fin 100)
      in js_gt dropPercent (Fin 5))"

definition shouldSIP :: "jsnum \<Rightarrow> jsnum \<Rightarrow> bool" where
  "shouldSIP lastBuyPrice currentPrice =
     (let dropPercent =
            js_mul (js_div (js_sub lastBuyPrice currentPrice) lastBuyPrice) (Fin 100)
      in js_gt dropPercent (Fin 10))"

subsection \<open>sellFIFO\<close>

text \<open>
  The loop over the sorted lots, with its three variables: the sold list, the remaining
  list and \<open>remainingToSell\<close>. \<open>Array.prototype.sort\<close> is stable, as is \<open>sort_key\<close>.
\<close>

record SoldHolding =
  holding :: Holding
  quantitySold :: jsnum

record SellResult =
  soldHoldings :: "SoldHolding list"
  remaining :: "Holding list"

fun sell_loop :: "Holding list \<Rightarrow> SoldHolding list \<Rightarrow> Holding list \<Rightarrow> jsnum \<Rightarrow> SellResult" where
  "sell_loop [] sold rem remainingToSell = \<lparr>soldHoldings = sold, remaining = rem\<rparr>"
| "sell_loop (h # hs) sold rem remainingToSell =
     (if js_le remainingToSell (Fin 0) then sell_loop hs sold (rem @ [h]) remainingToSell
      else if js_le (quantity h) remainingToSell then
        sell_loop hs (sold @ [\<lparr>holding = h, quantitySold = quantity h\<rparr>]) rem
          (js_sub remainingToSell (quantity h))
      else
        sell_loop hs (sold @ [\<lparr>holding = h, quantitySold = remainingToSell\<rparr>])
          (rem @ [h\<lparr>quantity := js_sub (quantity h) remainingToSell\<rparr>]) (Fin 0))"

definition sellFIFO :: "Holding list \<Rightarrow> jsnum \<Rightarrow> SellResult" where
  "sellFIFO holdings quantityToSell =
     (let sorted = sort_key buyDate holdings
      in sell_loop sorted [] [] quantityToSell)"

subsection \<open>calculateAveragePrice\<close>

definition calculateAveragePrice :: "Holding list \<Rightarrow> jsnum" where
  "calculateAveragePrice holdings =
     (if length holdings = 0 then Fin 0
      else
        let totalValue = foldl (\<lambda>sum h. js_add sum (js_mul (buyPrice h) (quantity h))) (Fin 0) holdings;
            totalQty = foldl (\<lambda>sum h. js_add sum (quantity h)) (Fin 0) holdings
        in if js_gt totalQty (Fin 0) then js_div totalValue totalQty else Fin 0)"

subsection \<open>calculateXIRR\<close>

text \<open>
  \<open>Math.pow\<close> is a parameter \<open>pow\<close> of the model: its floating-point values are not
  modelled, and what is proved holds for every such function. \<open>now\<close> is the time value of
  \<open>new Date()\<close>.
\<close>

record Flow =
  date :: int
  amount :: jsnum

definition signedFlow :: "CashFlow \<Rightarrow> Flow" where
  "signedFlow cf =
     \<lparr>date = cf_date cf,
      amount = (if cf_type cf = INVESTMENT \<or> cf_type cf = CAPITAL_ADD
                then js_neg (js_abs (cf_amount cf)) else js_abs (cf_amount cf))\<rparr>"

definition buildFlows :: "int \<Rightarrow> CashFlow list \<Rightarrow> jsnum \<Rightarrow> Flow list" where
  "buildFlows now cashFlows currentValue =
     sort_key date (map signedFlow cashFlows @ [\<lparr>date = now, amount = currentValue\<rparr>])"

definition yearsSince :: "int \<Rightarrow> Flow \<Rightarrow> jsnum" where
  "yearsSince startDate flow =
     js_div (Fin (real_of_int (date flow - startDate))) (Fin (365.25 * 24 * 60 * 60 * 1000))"

definition npv :: "(jsnum \<Rightarrow> jsnum \<Rightarrow> jsnum) \<Rightarrow> Flow list \<Rightarrow> int \<Rightarrow> jsnum \<Rightarrow> jsnum" where
  "npv pow allFlows startDate rate =
     foldl (\<lambda>sum flow.
              let years = yearsSince startDate flow
              in js_add sum (js_div (amount flow) (pow (js_add (Fin 1) rate) years)))
       (Fin 0) allFlows"

definition npvDerivative :: "(jsnum \<Rightarrow> jsnum \<Rightarrow> jsnum) \<Rightarrow> Flow list \<Rightarrow> int \<Rightarrow> jsnum \<Rightarrow> jsnum" where
  "npvDerivative pow allFlows startDate rate =
     foldl (\<lambda>sum flow.
              let years = yearsSince startDate flow
              in js_sub sum (js_div (js_mul years (amount flow))
                                    (pow (js_add (Fin 1) rate) (js_add years (Fin 1)))))
       (Fin 0) allFlows"

text \<open>
  The \<open>for\<close> loop, by recursion on the number of passes that are left (\<open>100 - i\<close>). Beside
  the returned number, a run records how many times \<open>newRate\<close> was computed and which
  exit was taken; the code's result is the field \<open>result\<close>.
\<close>

datatype LoopExit = NotStarted | Converged | DerivativeTooSmall | CapReached

record XirrRun =
  result :: jsnum
  updates :: nat
  exit :: LoopExit

fun newtonLoop :: "(jsnum \<Rightarrow> jsnum) \<Rightarrow> (jsnum \<Rightarrow> jsnum) \<Rightarrow> nat \<Rightarrow> jsnum \<Rightarrow> XirrRun" where
  "newtonLoop f f' 0 rate = \<lparr>result = js_mul rate (Fin 100), updates = 0, exit = CapReached\<rparr>"
| "newtonLoop f f' (Suc left) rate =
     (let fv = f rate; fPrime = f' rate
      in if js_lt (js_abs fPrime) (Fin (1 / 10 ^ 10)) then
           \<lparr>result = js_mul rate (Fin 100), updates = 0, exit = DerivativeTooSmall\<rparr>
         else
           let newRate = js_sub rate (js_div fv fPrime)
           in if js_lt (js_abs (js_sub newRate rate)) (Fin (1 / 10 ^ 7)) then
                \<lparr>result = js_mul newRate (Fin 100), updates = 1, exit = Converged\<rparr>
              else
                let run = newtonLoop f f' left newRate
                in run\<lparr>updates := Suc (updates run)\<rparr>)"

definition xirrRun :: "(jsnum \<Rightarrow> jsnum \<Rightarrow> jsnum) \<Rightarrow> int \<Rightarrow> CashFlow list \<Rightarrow> jsnum \<Rightarrow> XirrRun" where
  "xirrRun pow now cashFlows currentValue =
     (if length cashFlows = 0 then \<lparr>result = Fin 0, updates = 0, exit = NotStarted\<rparr>
      else
        let allFlows = buildFlows now cashFlows currentValue
        in if length allFlows < 2 then \<lparr>result = Fin 0, updates = 0, exit = NotStarted\<rparr>
           else
             let startDate = date (hd allFlows)
             in newtonLoop (npv pow allFlows startDate) (npvDerivative pow allFlows startDate)
                  100 (Fin 0.1))"

definition calculateXIRR :: "(jsnum \<Rightarrow> jsnum \<Rightarrow> jsnum) \<Rightarrow> int \<Rightarrow> CashFlow list \<Rightarrow> jsnum \<Rightarrow> jsnum" where
  "calculateXIRR pow now cashFlows currentValue = result (xirrRun pow now cashFlows currentValue)"

text \<open>One Newton-Raphson update, \<open>r - f(r) / f'(r)\<close>, to name the sequence of estimates.\<close>

definition newtonStep :: "(jsnum \<Rightarrow> jsnum) \<Rightarrow> (jsnum \<Rightarrow> jsnum) \<Rightarrow> jsnum \<Rightarrow> jsnum" where
  "newtonStep f f' rate = js_sub rate (js_div (f rate) (f' rate))"

section \<open>Client store (src/store/index.ts)\<close>

record ETF =
  etf_id :: nat
  symbol :: string
  yahooSymbol :: string
  name :: string
  category :: string

record ETFWithMarketData = ETF +
  etf_cmp :: jsnum
  high52w :: jsnum
  low52w :: jsnum
  volume :: jsnum
  distanceFromLow :: jsnum
  distanceFromHigh :: jsnum
  prevClose :: jsnum
  change :: jsnum
  changePercent :: jsnum

record HoldingWithCalculations = Holding +
  cmp :: jsnum
  avgPrice :: jsnum
  totalQuantity :: jsnum
  targetPrice :: jsnum
  currentValue :: jsnum
  investedValue :: jsnum
  notionalPL :: jsnum
  notionalPLPercent :: jsnum
  shouldAverage_f :: bool
  shouldSIP_f :: bool

record Trade =
  trade_id :: nat
  trade_etfId :: nat
  trade_etfSymbol :: string
  trade_etfName :: string
  trade_buyDate :: string
  sellDate :: string
  trade_buyPrice :: jsnum
  sellPrice :: jsnum
  trade_quantity :: jsnum
  profit :: jsnum
  profitPercent :: jsnum
  holdingDays :: jsnum

datatype TxType = ADD | WITHDRAW

record CapitalTransaction =
  tx_id :: nat
  tx_type :: TxType
  tx_amount :: jsnum
  tx_date :: string
  tx_notes :: "string option"

record CapitalSummary =
  cs_totalCapital :: jsnum
  totalInvested :: jsnum
  availableCapital :: jsnum
  usedPercent :: jsnum
  totalRealizedProfit :: jsnum
  totalNotionalPL :: jsnum

text \<open>The fields of the store that the computed getters read.\<close>

record StoreState =
  etfs :: "ETFWithMarketData list"
  holdings :: "Holding list"
  trades :: "Trade list"
  capitalTransactions :: "CapitalTransaction list"
  settings :: Settings

definition groupByETF :: "Holding list \<Rightarrow> (nat \<rightharpoonup> Holding list)" where
  "groupByETF hs =
     foldl (\<lambda>grouped h.
              let existing = (case grouped (etfId h) of None \<Rightarrow> [] | Some l \<Rightarrow> l)
              in grouped(etfId h \<mapsto> existing @ [h]))
       Map.empty hs"

definition withCalculations :: "StoreState \<Rightarrow> (nat \<rightharpoonup> Holding list) \<Rightarrow> Holding \<Rightarrow> HoldingWithCalculations" where
  "withCalculations st groupedByETF h =
     (let etf = find (\<lambda>e. symbol e = etfSymbol h) (etfs st);
          etfHoldings = (case groupedByETF (etfId h) of None \<Rightarrow> [] | Some l \<Rightarrow> l);
          avg = calculateAveragePrice etfHoldings;
          totalQty = foldl (\<lambda>sum x. js_add sum (quantity x)) (Fin 0) etfHoldings;
          c = (case etf of None \<Rightarrow> buyPrice h | Some e \<Rightarrow> js_or (etf_cmp e) (buyPrice h));
          target = calculateTargetPrice avg totalQty (settings st);
          curVal = js_mul (quantity h) c;
          invVal = js_mul (quantity h) (buyPrice h);
          pl = js_sub curVal invVal;
          plPercent = js_mul (js_div (js_sub c (buyPrice h)) (buyPrice h)) (Fin 100);
          sortedHoldings = sort_key (\<lambda>x. - buyDate x) etfHoldings;
          lastBuyPrice = (case sortedHoldings of [] \<Rightarrow> buyPrice h
                          | x # _ \<Rightarrow> js_or (buyPrice x) (buyPrice h))
      in \<lparr>holdingId = holdingId h, etfId = etfId h, etfSymbol = etfSymbol h,
          etfName = etfName h, buyDate = buyDate h, buyPrice = buyPrice h,
          quantity = quantity h, createdAt = createdAt h,
          cmp = c, avgPrice = avg, totalQuantity = totalQty, targetPrice = target,
          currentValue = curVal, investedValue = invVal, notionalPL = pl,
          notionalPLPercent = plPercent,
          shouldAverage_f = shouldAverage lastBuyPrice c,
          shouldSIP_f = shouldSIP lastBuyPrice c\<rparr>)"

definition getHoldingsWithCalculations :: "StoreState \<Rightarrow> HoldingWithCalculations list" where
  "getHoldingsWithCalculations st =
     (let groupedByETF = groupByETF (holdings st)
      in map (withCalculations st groupedByETF) (holdings st))"

text \<open>The loop of \<open>getCapitalSummary\<close> over the capital transactions, with its two totals.\<close>

fun capitalTotals :: "CapitalTransaction list \<Rightarrow> jsnum \<Rightarrow> jsnum \<Rightarrow> jsnum \<times> jsnum" where
  "capitalTotals [] totalAdditions totalWithdrawals = (totalAdditions, totalWithdrawals)"
| "capitalTotals (tx # txs) totalAdditions totalWithdrawals =
     (if tx_type tx = ADD then capitalTotals txs (js_add totalAdditions (tx_amount tx)) totalWithdrawals
      else capitalTotals txs totalAdditions (js_add totalWithdrawals (tx_amount tx)))"

definition getCapitalSummary :: "StoreState \<Rightarrow> CapitalSummary" where
  "getCapitalSummary st =
     (let holdingsWithCalc = getHoldingsWithCalculations st;
          (totalAdditions, totalWithdrawals) =
             capitalTotals (capitalTransactions st) (totalCapital (settings st)) (Fin 0);
          total = js_sub totalAdditions totalWithdrawals;
          invested = foldl (\<lambda>sum h. js_add sum (js_mul (buyPrice h) (quantity h))) (Fin 0) holdingsWithCalc;
          realized = foldl (\<lambda>sum t. js_add sum (profit t)) (Fin 0) (trades st);
          notional = foldl (\<lambda>sum h. js_add sum (notionalPL h)) (Fin 0) holdingsWithCalc;
          available = js_add (js_sub total invested) realized;
          used = (if js_gt total (Fin 0) then js_mul (js_div invested total) (Fin 100) else Fin 0)
      in \<lparr>cs_totalCapital = total, totalInvested = invested, availableCapital = available,
          usedPercent = used, totalRealizedProfit = realized, totalNotionalPL = notional\<rparr>)"

subsection \<open>The totals of the capital page (CapitalPage)\<close>

record PageTotals =
  baseCapital :: jsnum
  netCapital :: jsnum
  page_availableCapital :: jsnum
  page_usedPercent :: jsnum

definition capitalPageTotals :: "Settings option \<Rightarrow> CapitalTransaction list \<Rightarrow> jsnum \<Rightarrow> jsnum \<Rightarrow> PageTotals" where
  "capitalPageTotals settingsOpt transactions invested realized =
     (let totalAdditions =
            foldl (\<lambda>sum t. js_add sum (tx_amount t)) (Fin 0) (filter (\<lambda>t. tx_type t = ADD) transactions);
          totalWithdrawals =
            foldl (\<lambda>sum t. js_add sum (tx_amount t)) (Fin 0) (filter (\<lambda>t. tx_type t = WITHDRAW) transactions);
          base = (case settingsOpt of None \<Rightarrow> Fin 500000
                  | Some s \<Rightarrow> js_or (totalCapital s) (Fin 500000));
          net = js_sub (js_add base totalAdditions) totalWithdrawals;
          available = js_add (js_sub net invested) realized;
          used = (if js_gt net (Fin 0) then js_mul (js_div invested net) (Fin 100) else Fin 0)
      in \<lparr>baseCapital = base, netCapital = net, page_availableCapital = available,
          page_usedPercent = used\<rparr>)"

section \<open>Database operations (src/lib/db.ts)\<close>

text \<open>
  The tables that the modelled operations touch, as lists of rows in insertion order. The
  \<open>created_at\<close> columns, which SQLite fills in, are left out; each table with an
  \<open>AUTOINCREMENT\<close> key carries the largest key handed out so far.

  The numeric columns written here are all \<open>NOT NULL\<close>. SQLite stores a \<open>NaN\<close> as \<open>NULL\<close>, so
  a statement that binds \<open>NaN\<close> to one of them fails with a constraint error and throws,
  leaving the table and its key counter as they were; an infinity is stored as it is. A
  number that the request leaves out or gives as \<open>null\<close> is bound as \<open>NULL\<close> as well and is
  \<open>NaN\<close> in the model.
\<close>

datatype SqliteError = NotNullConstraintFailed

record HoldingRow =
  row_id :: nat
  row_etf_id :: nat
  buy_date :: string
  buy_price :: jsnum
  row_quantity :: jsnum

record TradeRow =
  trow_id :: nat
  trow_etf_id :: nat
  trow_buy_date :: string
  sell_date :: string
  trow_buy_price :: jsnum
  sell_price :: jsnum
  trow_quantity :: jsnum
  trow_profit :: jsnum
  profit_percent :: jsnum
  holding_days :: jsnum

record DailyActivity =
  da_id :: nat
  da_date :: string
  buy_count :: int
  sell_count :: int

record Database =
  etfs_t :: "ETF list"
  holdings_t :: "HoldingRow list"
  holdings_seq :: nat
  trades_t :: "TradeRow list"
  trades_seq :: nat
  settings_t :: "(string \<times> string) list"
  daily_activity_t :: "DailyActivity list"
  daily_activity_seq :: nat

definition getETFBySymbol :: "string \<Rightarrow> Database \<Rightarrow> ETF option" where
  "getETFBySymbol sy db = find (\<lambda>e. symbol e = sy) (etfs_t db)"

definition addHolding ::
  "nat \<Rightarrow> string \<Rightarrow> jsnum \<Rightarrow> jsnum \<Rightarrow> Database \<Rightarrow> SqliteError + nat \<times> Database" where
  "addHolding etf buyD price qty db =
     (if price = NaN \<or> qty = NaN then Inl NotNullConstraintFailed
      else
        let lastInsertRowid = Suc (holdings_seq db)
        in Inr (lastInsertRowid,
                db\<lparr>holdings_t := holdings_t db @
                       [\<lparr>row_id = lastInsertRowid, row_etf_id = etf, buy_date = buyD,
                         buy_price = price, row_quantity = qty\<rparr>],
                   holdings_seq := lastInsertRowid\<rparr>))"

text \<open>
  \<open>UPDATE holdings SET buy_price = ?, quantity = ? WHERE id = ?\<close>; the constraint is checked
  on the rows that the statement changes, so a \<open>NaN\<close> fails only when a row has the id.
\<close>

definition updateHolding :: "nat \<Rightarrow> jsnum \<Rightarrow> jsnum \<Rightarrow> Database \<Rightarrow> SqliteError + Database" where
  "updateHolding hid price qty db =
     (if (price = NaN \<or> qty = NaN) \<and> list_ex (\<lambda>r. row_id r = hid) (holdings_t db)
      then Inl NotNullConstraintFailed
      else
        Inr (db\<lparr>holdings_t :=
                  map (\<lambda>r. if row_id r = hid then r\<lparr>buy_price := price, row_quantity := qty\<rparr>
                           else r)
                    (holdings_t db)\<rparr>))"

fun js_floor :: "jsnum \<Rightarrow> jsnum" where
  "js_floor (Fin a) = Fin (of_int \<lfloor>a\<rfloor>)"
| "js_floor x = x"

text \<open>
  \<open>addTrade\<close> reads its two date strings through \<open>new Date(s).getTime()\<close>; that function
  is the parameter \<open>getTime\<close>.
\<close>

definition tradeProfit :: "jsnum \<Rightarrow> jsnum \<Rightarrow> jsnum \<Rightarrow> jsnum" where
  "tradeProfit buyP sellP qty = js_mul (js_sub sellP buyP) qty"

definition tradeProfitPercent :: "jsnum \<Rightarrow> jsnum \<Rightarrow> jsnum" where
  "tradeProfitPercent buyP sellP = js_mul (js_div (js_sub sellP buyP) buyP) (Fin 100)"

definition tradeHoldingDays :: "(string \<Rightarrow> jsnum) \<Rightarrow> string \<Rightarrow> string \<Rightarrow> jsnum" where
  "tradeHoldingDays getTime buyD sellD =
     js_floor (js_div (js_sub (getTime sellD) (getTime buyD)) (Fin (1000 * 60 * 60 * 24)))"

definition addTrade ::
  "(string \<Rightarrow> jsnum) \<Rightarrow> nat \<Rightarrow> string \<Rightarrow> string \<Rightarrow> jsnum \<Rightarrow> jsnum \<Rightarrow> jsnum \<Rightarrow> Database
     \<Rightarrow> SqliteError + nat \<times> Database" where
  "addTrade getTime etf buyD sellD buyP sellP qty db =
     (let pr = tradeProfit buyP sellP qty;
          prPercent = tradeProfitPercent buyP sellP;
          days = tradeHoldingDays getTime buyD sellD
      in if NaN \<in> set [buyP, sellP, qty, pr, prPercent, days] then Inl NotNullConstraintFailed
         else
           let lastInsertRowid = Suc (trades_seq db)
           in Inr (lastInsertRowid,
                   db\<lparr>trades_t := trades_t db @
                          [\<lparr>trow_id = lastInsertRowid, trow_etf_id = etf, trow_buy_date = buyD,
                            sell_date = sellD, trow_buy_price = buyP, sell_price = sellP,
                            trow_quantity = qty, trow_profit = pr, profit_percent = prPercent,
                            holding_days = days\<rparr>],
                      trades_seq := lastInsertRowid\<rparr>))"

subsection \<open>parseFloat and getSettings\<close>

text \<open>
  \<open>parseFloat\<close> on a byte string: leading white space is skipped, then the longest prefix
  that is a decimal literal (sign, \<open>Infinity\<close> or digits with an optional fraction and
  exponent) gives the value, and \<open>NaN\<close> results if there is none. White space beyond
  ASCII is not modelled.
\<close>

definition isWhiteSpace :: "char \<Rightarrow> bool" where
  "isWhiteSpace c = (of_char c \<in> {9, 10, 11, 12, 13, 32 :: nat})"

definition isDigit :: "char \<Rightarrow> bool" where
  "isDigit c = (48 \<le> (of_char c :: nat) \<and> (of_char c :: nat) \<le> 57)"

definition digitsValue :: "string \<Rightarrow> nat" where
  "digitsValue ds = foldl (\<lambda>n c. 10 * n + (of_char c - 48)) 0 ds"

definition splitSign :: "string \<Rightarrow> bool \<times> string" where
  "splitSign s =
     (case s of
        [] \<Rightarrow> (False, [])
      | c # cs \<Rightarrow> if c = CHR ''-'' then (True, cs)
                  else if c = CHR ''+'' then (False, cs) else (False, s))"

definition exponentPart :: "string \<Rightarrow> int" where
  "exponentPart s =
     (case s of
        [] \<Rightarrow> 0
      | c # cs \<Rightarrow>
          if c = CHR ''e'' \<or> c = CHR ''E'' then
            (let (neg, rest) = splitSign cs; ds = takeWhile isDigit rest
             in if ds = [] then 0
                else if neg then - int (digitsValue ds) else int (digitsValue ds))
          else 0)"

definition parseFloat :: "string \<Rightarrow> jsnum" where
  "parseFloat inputString =
     (let (neg, unsigned) = splitSign (dropWhile isWhiteSpace inputString)
      in if take 8 unsigned = ''Infinity'' then (if neg then NInf else PInf)
         else
           let intDigits = takeWhile isDigit unsigned;
               afterInt = dropWhile isDigit unsigned;
               (fracDigits, afterFrac) =
                  (case afterInt of
                     [] \<Rightarrow> ([], [])
                   | c # cs \<Rightarrow> if c = CHR ''.'' then (takeWhile isDigit cs, dropWhile isDigit cs)
                               else ([], afterInt))
           in if intDigits = [] \<and> fracDigits = [] then NaN
              else
                let mantissa = real (digitsValue (intDigits @ fracDigits)) / 10 ^ length fracDigits;
                    e = exponentPart afterFrac;
                    v = (if 0 \<le> e then mantissa * 10 ^ nat e else mantissa / 10 ^ nat (- e))
                in Fin (if neg then - v else v))"

text \<open>
  The loop \<open>settings[row.key] = row.value\<close> over the rows, and the read of a property
  that may be missing: \<open>parseFloat(undefined)\<close> parses the string \<open>undefined\<close>.
\<close>

definition settingsObject :: "(string \<times> string) list \<Rightarrow> (string \<rightharpoonup> string)" where
  "settingsObject rows = foldl (\<lambda>obj row. obj(fst row \<mapsto> snd row)) Map.empty rows"

definition parseSetting :: "(string \<rightharpoonup> string) \<Rightarrow> string \<Rightarrow> jsnum" where
  "parseSetting obj k = parseFloat (case obj k of None \<Rightarrow> ''undefined'' | Some v \<Rightarrow> v)"

definition getSettings :: "Database \<Rightarrow> Settings" where
  "getSettings db =
     (let obj = settingsObject (settings_t db)
      in \<lparr>profitTargetPercent = js_or (parseSetting obj ''profit_target_percent'') (Fin 6),
          minProfitAmount = js_or (parseSetting obj ''min_profit_amount'') (Fin 500),
          perTransactionAmount = js_or (parseSetting obj ''per_transaction_amount'') (Fin 10000),
          totalCapital = js_or (parseSetting obj ''total_capital'') (Fin 500000),
          minVolume = Some (js_or (parseSetting obj ''min_volume'') (Fin 15000)),
          averagingThreshold = Some (js_or (parseSetting obj ''averaging_threshold'') (Fin 2.5)),
          maxDailyBuys = Some (js_or (parseSetting obj ''max_daily_buys'') (Fin 1)),
          maxDailySells = Some (js_or (parseSetting obj ''max_daily_sells'') (Fin 1))\<rparr>)"

subsection \<open>Daily activity\<close>

definition getDailyActivity :: "string \<Rightarrow> Database \<Rightarrow> DailyActivity option" where
  "getDailyActivity d db = find (\<lambda>a. da_date a = d) (daily_activity_t db)"

text \<open>
  \<open>INSERT ... VALUES (?, 1, 0) ON CONFLICT(date) DO UPDATE SET buy_count = buy_count + 1\<close>,
  and the same for sells. SQLite hands out a key for the row before it finds the conflict,
  so the key counter advances on the update as well.
\<close>

definition incrementDailyBuy :: "string \<Rightarrow> Database \<Rightarrow> Database" where
  "incrementDailyBuy d db =
     (case find (\<lambda>a. da_date a = d) (daily_activity_t db) of
        None \<Rightarrow>
          db\<lparr>daily_activity_t := daily_activity_t db @
                 [\<lparr>da_id = Suc (daily_activity_seq db), da_date = d, buy_count = 1, sell_count = 0\<rparr>],
             daily_activity_seq := Suc (daily_activity_seq db)\<rparr>
      | Some _ \<Rightarrow>
          db\<lparr>daily_activity_t :=
               map (\<lambda>a. if da_date a = d then a\<lparr>buy_count := buy_count a + 1\<rparr> else a)
                 (daily_activity_t db),
             daily_activity_seq := Suc (daily_activity_seq db)\<rparr>)"

definition incrementDailySell :: "string \<Rightarrow> Database \<Rightarrow> Database" where
  "incrementDailySell d db =
     (case find (\<lambda>a. da_date a = d) (daily_activity_t db) of
        None \<Rightarrow>
          db\<lparr>daily_activity_t := daily_activity_t db @
                 [\<lparr>da_id = Suc (daily_activity_seq db), da_date = d, buy_count = 0, sell_count = 1\<rparr>],
             daily_activity_seq := Suc (daily_activity_seq db)\<rparr>
      | Some _ \<Rightarrow>
          db\<lparr>daily_activity_t :=
               map (\<lambda>a. if da_date a = d then a\<lparr>sell_count := sell_count a + 1\<rparr> else a)
                 (daily_activity_t db),
             daily_activity_seq := Suc (daily_activity_seq db)\<rparr>)"

section \<open>API routes\<close>

text \<open>
  The handlers of the holdings route (src/app/api/holdings/route.ts) and of the trades route
  in the version that checks the daily sell limit (src/unnamed/part_006). A handler takes the
  parsed request body and the database and returns its response, whether it wrote the
  \<open>console.warn\<close> line of the soft limit, and the database afterwards. An error thrown by
  a database statement is caught by the handler, which answers with status 500; what was
  written before the error stays. The source also holds an earlier copy of each route
  without the limit check, which does not touch the daily counters; it is not modelled.
\<close>

datatype Response = Created nat | Done | Failed string nat

record Outcome =
  response :: Response
  warned :: bool
  db_after :: Database

record HoldingBody =
  hb_etfSymbol :: string
  hb_buyDate :: string
  hb_buyPrice :: jsnum
  hb_quantity :: jsnum

record TradeBody =
  tb_etfSymbol :: string
  tb_buyDate :: string
  tb_sellDate :: string
  tb_buyPrice :: jsnum
  tb_sellPrice :: jsnum
  tb_quantity :: jsnum

record UpdateBody =
  ub_id :: nat
  ub_buyPrice :: jsnum
  ub_quantity :: jsnum
  ub_buyDate :: string

definition holdings_POST :: "HoldingBody \<Rightarrow> Database \<Rightarrow> Outcome" where
  "holdings_POST body db =
     (let st = getSettings db;
          activity = getDailyActivity (hb_buyDate body) db;
          buyCount = (case activity of None \<Rightarrow> Fin 0
                      | Some a \<Rightarrow> js_or (Fin (of_int (buy_count a))) (Fin 0));
          warn = (case maxDailyBuys st of None \<Rightarrow> False
                  | Some m \<Rightarrow> js_truthy m \<and> js_ge buyCount m)
      in case getETFBySymbol (hb_etfSymbol body) db of
           None \<Rightarrow> \<lparr>response = Failed ''ETF not found'' 404, warned = warn, db_after = db\<rparr>
         | Some etf \<Rightarrow>
             (case addHolding (etf_id etf) (hb_buyDate body) (hb_buyPrice body)
                     (hb_quantity body) db of
                Inl err \<Rightarrow>
                  \<lparr>response = Failed ''Failed to add holding'' 500, warned = warn, db_after = db\<rparr>
              | Inr (newId, db1) \<Rightarrow>
                  let db2 = incrementDailyBuy (hb_buyDate body) db1
                  in \<lparr>response = Created newId, warned = warn, db_after = db2\<rparr>))"

definition trades_POST :: "(string \<Rightarrow> jsnum) \<Rightarrow> TradeBody \<Rightarrow> Database \<Rightarrow> Outcome" where
  "trades_POST getTime body db =
     (let st = getSettings db;
          activity = getDailyActivity (tb_sellDate body) db;
          sellCount = (case activity of None \<Rightarrow> Fin 0
                       | Some a \<Rightarrow> js_or (Fin (of_int (sell_count a))) (Fin 0));
          warn = (case maxDailySells st of None \<Rightarrow> False
                  | Some m \<Rightarrow> js_truthy m \<and> js_ge sellCount m)
      in case getETFBySymbol (tb_etfSymbol body) db of
           None \<Rightarrow> \<lparr>response = Failed ''ETF not found'' 404, warned = warn, db_after = db\<rparr>
         | Some etf \<Rightarrow>
             (case addTrade getTime (etf_id etf) (tb_buyDate body) (tb_sellDate body)
                     (tb_buyPrice body) (tb_sellPrice body) (tb_quantity body) db of
                Inl err \<Rightarrow>
                  \<lparr>response = Failed ''Failed to add trade'' 500, warned = warn, db_after = db\<rparr>
              | Inr (newId, db1) \<Rightarrow>
                  let db2 = incrementDailySell (tb_sellDate body) db1
                  in \<lparr>response = Created newId, warned = warn, db_after = db2\<rparr>))"

text \<open>
  \<open>PUT\<close> calls \<open>updateHolding(id, buyPrice, quantity, buyDate)\<close>; the function has three
  parameters, so the fourth argument is dropped by the call.
\<close>

definition holdings_PUT :: "UpdateBody \<Rightarrow> Database \<Rightarrow> Outcome" where
  "holdings_PUT body db =
     (case updateHolding (ub_id body) (ub_buyPrice body) (ub_quantity body) db of
        Inl err \<Rightarrow>
          \<lparr>response = Failed ''Failed to update holding'' 500, warned = False, db_after = db\<rparr>
      | Inr db1 \<Rightarrow> \<lparr>response = Done, warned = False, db_after = db1\<rparr>)"

section \<open>Auxiliary definitions\<close>

text \<open>The real denoted by a finite number, to state sums over finite quantities and amounts.\<close>

fun finVal :: "jsnum \<Rightarrow> real" where
  "finVal (Fin a) = a"
| "finVal _ = 0"

text \<open>Lots as the database holds them: every quantity is a finite number above zero.\<close>

definition lots_ok :: "Holding list \<Rightarrow> bool" where
  "lots_ok hs = (\<forall>h\<in>set hs. \<exists>q. quantity h = Fin q \<and> 0 < q)"

text \<open>
  What one run of the loop of \<open>sellFIFO\<close> appends to the sold list and to the remaining
  list, as a function of the lots still to visit; used to reason about \<open>sell_loop\<close>.
\<close>

fun consume :: "Holding list \<Rightarrow> jsnum \<Rightarrow> SoldHolding list \<times> Holding list" where
  "consume [] n = ([], [])"
| "consume (h # hs) n =
     (if js_le n (Fin 0) then ([], h # hs)
      else if js_le (quantity h) n then
        (\<lparr>holding = h, quantitySold = quantity h\<rparr> # fst (consume hs (js_sub n (quantity h))),
         snd (consume hs (js_sub n (quantity h))))
      else ([\<lparr>holding = h, quantitySold = n\<rparr>],
            h\<lparr>quantity := js_sub (quantity h) n\<rparr> # hs))"

text \<open>Three lots of one ETF bought on 1, 2 and 3 January 2024, ten units each.\<close>

definition lot1 :: Holding where
  "lot1 = \<lparr>holdingId = 1, etfId = 1, etfSymbol = ''GOLDBEES'', etfName = ''Gold BeES'',
            buyDate = 1704067200000, buyPrice = Fin 50, quantity = Fin 10,
            createdAt = ''2024-01-01 09:30:00''\<rparr>"

definition lot2 :: Holding where
  "lot2 = \<lparr>holdingId = 2, etfId = 1, etfSymbol = ''GOLDBEES'', etfName = ''Gold BeES'',
            buyDate = 1704153600000, buyPrice = Fin 52, quantity = Fin 10,
            createdAt = ''2024-01-02 09:30:00''\<rparr>"

definition lot3 :: Holding where
  "lot3 = \<lparr>holdingId = 3, etfId = 1, etfSymbol = ''GOLDBEES'', etfName = ''Gold BeES'',
            buyDate = 1704240000000, buyPrice = Fin 51, quantity = Fin 10,
            createdAt = ''2024-01-03 09:30:00''\<rparr>"

text \<open>
  A power function that is exact at the exponents 0, 1 and 2, the only ones that occur
  when the cash flows lie on one day or a whole year (365.25 days) apart; and one
  investment of 100000 on 1 January 2024.
\<close>

definition pow_upto2 :: "jsnum \<Rightarrow> jsnum \<Rightarrow> jsnum" where
  "pow_upto2 b e =
     (if e = Fin 0 then Fin 1 else if e = Fin 1 then b
      else if e = Fin 2 then js_mul b b else NaN)"

definition oneInvestment :: "CashFlow list" where
  "oneInvestment = [\<lparr>cf_date = 1704067200000, cf_amount = Fin 100000, cf_type = INVESTMENT\<rparr>]"

text \<open>
  The buy and sell counts of a date as the routes read them: those of the date's row, and
  0 when the date has no row yet.
\<close>

definition dailyBuyCount :: "string \<Rightarrow> Database \<Rightarrow> int" where
  "dailyBuyCount d db = (case getDailyActivity d db of None \<Rightarrow> 0 | Some a \<Rightarrow> buy_count a)"

definition dailySellCount :: "string \<Rightarrow> Database \<Rightarrow> int" where
  "dailySellCount d db = (case getDailyActivity d db of None \<Rightarrow> 0 | Some a \<Rightarrow> sell_count a)"

text \<open>The six numbers that \<open>addTrade\<close> binds to the row of a sell request.\<close>

definition tradeNumbers :: "(string \<Rightarrow> jsnum) \<Rightarrow> TradeBody \<Rightarrow> jsnum list" where
  "tradeNumbers getTime tb =
     [tb_buyPrice tb, tb_sellPrice tb, tb_quantity tb,
      tradeProfit (tb_buyPrice tb) (tb_sellPrice tb) (tb_quantity tb),
      tradeProfitPercent (tb_buyPrice tb) (tb_sellPrice tb),
      tradeHoldingDays getTime (tb_buyDate tb) (tb_sellDate tb)]"

text \<open>
  A database with one ETF and one lot, stored settings of \<open>0\<close> for the profit target and the
  minimum profit, a daily cap of one buy and one sell, and a day that already has two buys
  and one sell; a buy and a sell requested for that day; and the time values of the two
  dates that occur.
\<close>

definition exampleDb :: Database where
  "exampleDb =
     \<lparr>etfs_t = [\<lparr>etf_id = 1, symbol = ''GOLDBEES'', yahooSymbol = ''GOLDBEES.NS'',
                 name = ''Gold BeES'', category = ''Gold''\<rparr>],
      holdings_t = [\<lparr>row_id = 1, row_etf_id = 1, buy_date = ''2024-01-01'',
                     buy_price = Fin 50, row_quantity = Fin 10\<rparr>],
      holdings_seq = 1,
      trades_t = [], trades_seq = 0,
      settings_t = [(''profit_target_percent'', ''0''), (''min_profit_amount'', ''0''),
                    (''max_daily_buys'', ''1''), (''max_daily_sells'', ''1'')],
      daily_activity_t = [\<lparr>da_id = 1, da_date = ''2024-01-03'', buy_count = 2, sell_count = 1\<rparr>],
      daily_activity_seq = 1\<rparr>"

definition exampleBuy :: HoldingBody where
  "exampleBuy = \<lparr>hb_etfSymbol = ''GOLDBEES'', hb_buyDate = ''2024-01-03'',
                  hb_buyPrice = Fin 51, hb_quantity = Fin 10\<rparr>"

definition exampleSell :: TradeBody where
  "exampleSell = \<lparr>tb_etfSymbol = ''GOLDBEES'', tb_buyDate = ''2024-01-01'',
                   tb_sellDate = ''2024-01-03'', tb_buyPrice = Fin 50, tb_sellPrice = Fin 53,
                   tb_quantity = Fin 10\<rparr>"

definition exampleTime :: "string \<Rightarrow> jsnum" where
  "exampleTime s = (if s = ''2024-01-01'' then Fin 1704067200000
                    else if s = ''2024-01-03'' then Fin 1704240000000 else NaN)"

text \<open>
  The eight numeric settings with their stored key and documented default; a field that is
  not set reads as \<open>undefined\<close>, which is \<open>NaN\<close> as a number.
\<close>

definition optNum :: "jsnum option \<Rightarrow> jsnum" where
  "optNum v = (case v of None \<Rightarrow> NaN | Some x \<Rightarrow> x)"

definition settingEntries :: "Settings \<Rightarrow> (string \<times> real \<times> jsnum) list" where
  "settingEntries s =
     [(''profit_target_percent'', 6, profitTargetPercent s),
      (''min_profit_amount'', 500, minProfitAmount s),
      (''per_transaction_amount'', 10000, perTransactionAmount s),
      (''total_capital'', 500000, totalCapital s),
      (''min_volume'', 15000, optNum (minVolume s)),
      (''averaging_threshold'', 2.5, optNum (averagingThreshold s)),
      (''max_daily_buys'', 1, optNum (maxDailyBuys s)),
      (''max_daily_sells'', 1, optNum (maxDailySells s))]"

text \<open>
  Capital transactions whose amounts are finite numbers, and the sum of the amounts of one
  type.
\<close>

definition amounts_finite :: "CapitalTransaction list \<Rightarrow> bool" where
  "amounts_finite txs = (\<forall>t\<in>set txs. \<exists>a. tx_amount t = Fin a)"

definition sumAmounts :: "TxType \<Rightarrow> CapitalTransaction list \<Rightarrow> real" where
  "sumAmounts ty txs = sum_list (map (\<lambda>t. finVal (tx_amount t)) (filter (\<lambda>t. tx_type t = ty) txs))"

text \<open>
  The store's initial settings; an ETF with a current price of 60; one addition of 50000
  and one withdrawal of 20000; a store with 100000 invested and 5000 of realized profit;
  and a store whose only lot has a purchase price of 0.
\<close>

definition defaultSettings :: Settings where
  "defaultSettings =
     \<lparr>profitTargetPercent = Fin 6, minProfitAmount = Fin 500,
      perTransactionAmount = Fin 10000, totalCapital = Fin 500000,
      minVolume = None, averagingThreshold = None, maxDailyBuys = None,
      maxDailySells = None\<rparr>"

definition goldbees :: ETFWithMarketData where
  "goldbees =
     \<lparr>etf_id = 1, symbol = ''GOLDBEES'', yahooSymbol = ''GOLDBEES.NS'', name = ''Gold BeES'',
      category = ''Gold'', etf_cmp = Fin 60, high52w = Fin 65, low52w = Fin 45,
      volume = Fin 200000, distanceFromLow = Fin (100 / 3), distanceFromHigh = Fin (100 / 13),
      prevClose = Fin 59, change = Fin 1, changePercent = Fin (100 / 59)\<rparr>"

definition exampleTransactions :: "CapitalTransaction list" where
  "exampleTransactions =
     [\<lparr>tx_id = 1, tx_type = ADD, tx_amount = Fin 50000, tx_date = ''2024-01-05'', tx_notes = None\<rparr>,
      \<lparr>tx_id = 2, tx_type = WITHDRAW, tx_amount = Fin 20000, tx_date = ''2024-01-10'',
        tx_notes = None\<rparr>]"

definition capitalStore :: StoreState where
  "capitalStore =
     \<lparr>etfs = [goldbees],
      holdings = [lot1\<lparr>buyPrice := Fin 100, quantity := Fin 1000\<rparr>],
      trades = [\<lparr>trade_id = 1, trade_etfId = 1, trade_etfSymbol = ''GOLDBEES'',
                 trade_etfName = ''Gold BeES'', trade_buyDate = ''2023-12-01'',
                 sellDate = ''2023-12-11'', trade_buyPrice = Fin 50, sellPrice = Fin 55,
                 trade_quantity = Fin 1000, profit = Fin 5000, profitPercent = Fin 10,
                 holdingDays = Fin 10\<rparr>],
      capitalTransactions = exampleTransactions,
      settings = defaultSettings\<rparr>"

definition zeroPriceStore :: StoreState where
  "zeroPriceStore =
     \<lparr>etfs = [goldbees],
      holdings = [lot1\<lparr>buyPrice := Fin 0, quantity := Fin 5\<rparr>],
      trades = [], capitalTransactions = [], settings = defaultSettings\<rparr>"

section \<open>Arithmetic on finite numbers\<close>

lemma js_sub_Fin [simp]: "js_sub (Fin a) (Fin b) = Fin (a - b)"
  by (simp add: js_sub_def)

lemma js_gt_Fin [simp]: "js_gt (Fin a) (Fin b) = (b < a)"
  by (simp add: js_gt_def)

lemma js_ge_Fin [simp]: "js_ge (Fin a) (Fin b) = (b \<le> a)"
  by (simp add: js_ge_def)

lemma js_max_Fin [simp]: "js_max (Fin a) (Fin b) = Fin (max a b)"
  by (simp add: max_def)

section \<open>Dynamic profit target\<close>

text \<open>
  C1, as the code has it: on finite numbers the target is the base times 0.52 above 90,
  times 0.67 above 80, times 0.83 above 70 and the base otherwise, each bound exclusive.
  A utilization of exactly 90 is not above 90 but is above 80, so
  \<open>getDynamicProfitTarget(6, 90)\<close> is 6 times 0.67, that is 4.02; at 91 it is 3.12 and at 50
  it is 6.
\<close>

theorem getDynamicProfitTarget_scaling:
  "getDynamicProfitTarget (Fin b) (Fin u) =
     Fin (if 90 < u then b * 0.52 else if 80 < u then b * 0.67
          else if 70 < u then b * 0.83 else b)
   \<and> getDynamicProfitTarget (Fin 6) (Fin 91) = Fin 3.12
   \<and> getDynamicProfitTarget (Fin 6) (Fin 90) = Fin 4.02
   \<and> getDynamicProfitTarget (Fin 6) (Fin 50) = Fin 6"
  by (simp add: getDynamicProfitTarget_def)

theorem getDynamicProfitTarget_scaling_witness:
  "getDynamicProfitTarget (Fin 6) (Fin 85) = Fin 4.02"
  using getDynamicProfitTarget_scaling [of 6 85] by simp

text \<open>
  C1 as the specification states it gives 6 for \<open>getDynamicProfitTarget(6, 90)\<close>; the code
  returns 4.02 there.
\<close>

theorem getDynamicProfitTarget_boundary_counterexample:
  "getDynamicProfitTarget (Fin 6) (Fin 90) \<noteq> Fin 6
   \<and> getDynamicProfitTarget (Fin 6) (Fin 90) = Fin 4.02"
  by (simp add: getDynamicProfitTarget_def)

section \<open>Rounding to double precision\<close>

lemma pow2_powi: "pow2 e = 2 powi e"
  by (simp add: pow2_def power_int_def power_one_over inverse_eq_divide)

lemma pow2_pos [simp]: "0 < pow2 e"
  by (simp add: pow2_powi)

lemma pow2_nonneg [simp]: "0 \<le> pow2 e"
  by (rule less_imp_le) (rule pow2_pos)

lemma pow2_add: "pow2 (a + b) = pow2 a * pow2 b"
  by (simp add: pow2_powi power_int_add)

lemma pow2_one: "pow2 1 = 2"
  by (simp add: pow2_def)

lemma pow2_Suc: "pow2 (e + 1) = pow2 e * 2"
  by (simp only: pow2_add pow2_one)

lemma pow2_nonneg_int: "0 \<le> k \<Longrightarrow> pow2 k = of_int (2 ^ nat k)"
  by (simp add: pow2_def)

lemma roundHalfEven_int [simp]: "roundHalfEven (of_int n) = n"
  by (simp add: roundHalfEven_def)

lemma roundHalfEven_bounds: "\<lfloor>y\<rfloor> \<le> roundHalfEven y \<and> roundHalfEven y \<le> \<lfloor>y\<rfloor> + 1"
  by (simp add: roundHalfEven_def Let_def)

lemma roundHalfEven_mono: "y \<le> z \<Longrightarrow> roundHalfEven y \<le> roundHalfEven z"
proof -
  assume le: "y \<le> z"
  then have f: "\<lfloor>y\<rfloor> \<le> \<lfloor>z\<rfloor>" by (rule floor_mono)
  show ?thesis
  proof (cases "\<lfloor>y\<rfloor> = \<lfloor>z\<rfloor>")
    case True
    with le show ?thesis by (auto simp: roundHalfEven_def Let_def)
  next
    case False
    with f have "\<lfloor>y\<rfloor> + 1 \<le> \<lfloor>z\<rfloor>" by simp
    with roundHalfEven_bounds [of y] roundHalfEven_bounds [of z] show ?thesis by linarith
  qed
qed

lemma roundHalfEven_ge: "of_int n \<le> y \<Longrightarrow> n \<le> roundHalfEven y"
  using roundHalfEven_mono [of "of_int n" y] by simp

lemma scaleDown_spec:
  "0 < y \<Longrightarrow> scaleDown y e = (y', e') \<Longrightarrow>
     y' * pow2 e' = y * pow2 e \<and> 0 < y' \<and> y' < 2 ^ 53 \<and> (2 ^ 53 \<le> y \<longrightarrow> 2 ^ 52 \<le> y')"
proof (induction y e rule: scaleDown.induct)
  case (1 y e)
  show ?case
  proof (cases "2 ^ 53 \<le> y")
    case True
    then have r: "scaleDown (y / 2) (e + 1) = (y', e')" using "1.prems"(2) by simp
    have p: "0 < y / 2" using "1.prems"(1) by simp
    note ih = "1.IH" [OF True p r]
    have "y' * pow2 e' = y / 2 * pow2 (e + 1)" by (rule ih [THEN conjunct1])
    also have "\<dots> = y * pow2 e" by (simp add: pow2_Suc)
    finally have v: "y' * pow2 e' = y * pow2 e" .
    have a: "0 < y'" "y' < 2 ^ 53" using ih by simp_all
    have w: "2 ^ 52 \<le> y'"
    proof (cases "2 ^ 53 \<le> y / 2")
      case True
      with ih show ?thesis by simp
    next
      case False
      with r have "y' = y / 2" by simp
      with True show ?thesis by simp
    qed
    show ?thesis by (intro conjI impI v a w)
  next
    case False
    with "1.prems" show ?thesis by simp
  qed
qed

lemma scaleUp_spec:
  "0 < y \<Longrightarrow> y < 2 ^ 53 \<Longrightarrow> scaleUp y e = (y', e') \<Longrightarrow>
     y' * pow2 e' = y * pow2 e \<and> 2 ^ 52 \<le> y' \<and> y' < 2 ^ 53"
proof (induction y e rule: scaleUp.induct)
  case (1 y e)
  show ?case
  proof (cases "y < 2 ^ 52")
    case True
    with "1.prems" have c: "0 < y \<and> y < 2 ^ 52" by simp
    then have r: "scaleUp (2 * y) (e - 1) = (y', e')" using "1.prems"(3) by simp
    have p: "0 < 2 * y" "2 * y < 2 ^ 53" using c by simp_all
    note ih = "1.IH" [OF c p r]
    have "pow2 e = pow2 (e - 1) * 2" using pow2_Suc [of "e - 1"] by simp
    then have "2 * y * pow2 (e - 1) = y * pow2 e" by simp
    with ih [THEN conjunct1] have "y' * pow2 e' = y * pow2 e" by (simp only:)
    with ih show ?thesis by simp
  next
    case False
    with "1.prems" show ?thesis by simp
  qed
qed

lemma normalise_spec:
  assumes "0 < y" and "normalise y = (y', e')"
  shows "y' * pow2 e' = y \<and> 2 ^ 52 \<le> y' \<and> y' < 2 ^ 53"
proof -
  obtain y1 e1 where d: "scaleDown y 0 = (y1, e1)" by (cases "scaleDown y 0")
  with assms(2) have u: "scaleUp y1 e1 = (y', e')" by (simp add: normalise_def)
  have z: "pow2 0 = 1" by (simp add: pow2_def)
  from scaleDown_spec [OF assms(1) d] have a: "y1 * pow2 e1 = y" "0 < y1" "y1 < 2 ^ 53"
    by (simp_all add: z)
  from scaleUp_spec [OF a(2,3) u] a(1) show ?thesis by simp
qed

lemma pow2_zero: "pow2 0 = 1"
  by (simp add: pow2_def)

lemma pow2_mono: "a \<le> b \<Longrightarrow> pow2 a \<le> pow2 b"
proof -
  assume le: "a \<le> b"
  have "pow2 b = pow2 a * pow2 (b - a)" using pow2_add [of a "b - a"] by simp
  moreover have "1 \<le> pow2 (b - a)" using le by (simp add: pow2_def)
  ultimately show ?thesis by simp
qed

lemma pow2_le_one: "e \<le> 0 \<Longrightarrow> pow2 e \<le> 1"
  using pow2_mono [of e 0] by (simp add: pow2_zero)

lemma mantissa_exponent_spec:
  assumes "0 < x" and "mantissa_exponent x = (y, e)"
  shows "y * pow2 e = x \<and> 0 < y \<and> y < 2 ^ 53 \<and> - 1074 \<le> e \<and> (- 1074 < e \<longrightarrow> 2 ^ 52 \<le> y)"
proof -
  obtain y0 e0 where n: "normalise x = (y0, e0)" by (cases "normalise x")
  note sp = normalise_spec [OF assms(1) n]
  have v: "y0 * pow2 e0 = x" and lo: "2 ^ 52 \<le> y0" and hi: "y0 < 2 ^ 53"
    using sp by simp_all
  have pos: "0 < y0" using lo by (rule less_le_trans [rotated]) simp
  show ?thesis
  proof (cases "e0 < - 1074")
    case True
    with n assms(2) have ye: "y = y0 * pow2 (e0 + 1074)" "e = - 1074"
      by (simp_all add: mantissa_exponent_def)
    have "pow2 (e0 + 1074) * pow2 (- 1074) = pow2 e0"
      using pow2_add [of "e0 + 1074" "- 1074"] by simp
    then have a: "y * pow2 e = x" using v ye by (simp add: mult.assoc)
    have b: "0 < y" using pos ye by simp
    have "pow2 (e0 + 1074) \<le> 1" using True by (intro pow2_le_one) simp
    then have "y0 * pow2 (e0 + 1074) \<le> y0 * 1" using pos by (intro mult_left_mono) simp_all
    then have c: "y < 2 ^ 53" using hi ye by simp
    have d: "- 1074 \<le> e" "\<not> - 1074 < e" using ye by simp_all
    show ?thesis using a b c d by blast
  next
    case False
    with n assms(2) have ye: "y = y0" "e = e0"
      by (simp_all add: mantissa_exponent_def)
    have d: "- 1074 \<le> e" using False ye by simp
    show ?thesis using v lo hi pos d unfolding ye by blast
  qed
qed

lemma roundHalfEven_le: "y \<le> of_int n \<Longrightarrow> roundHalfEven y \<le> n"
  using roundHalfEven_mono [of y "of_int n"] by simp

lemma round_pos_mono:
  assumes "0 < a" and "a \<le> x"
  shows "round_pos a \<le> round_pos x"
proof -
  obtain y e where m1: "mantissa_exponent a = (y, e)" by (cases "mantissa_exponent a")
  obtain z f where m2: "mantissa_exponent x = (z, f)" by (cases "mantissa_exponent x")
  have px: "0 < x" using assms by simp
  note s1 = mantissa_exponent_spec [OF assms(1) m1]
  note s2 = mantissa_exponent_spec [OF px m2]
  have v1: "y * pow2 e = a" and y_pos: "0 < y" and y_hi: "y < 2 ^ 53"
    and e_lo: "- 1074 \<le> e" and y_lo: "- 1074 < e \<longrightarrow> 2 ^ 52 \<le> y"
    using s1 by simp_all
  have v2: "z * pow2 f = x" and z_pos: "0 < z" and z_hi: "z < 2 ^ 53"
    and f_lo: "- 1074 \<le> f" and z_lo: "- 1074 < f \<longrightarrow> 2 ^ 52 \<le> z"
    using s2 by simp_all
  have r1: "round_pos a = of_int (roundHalfEven y) * pow2 e"
    by (simp add: round_pos_def m1)
  have r2: "round_pos x = of_int (roundHalfEven z) * pow2 f"
    by (simp add: round_pos_def m2)
  have ef: "e \<le> f"
  proof (rule ccontr)
    assume "\<not> e \<le> f"
    then have fe: "f + 1 \<le> e" by simp
    then have "- 1074 < e" using f_lo by simp
    with y_lo have "2 ^ 52 \<le> y" by simp
    then have c1: "2 ^ 52 * pow2 e \<le> y * pow2 e" by (intro mult_right_mono) simp_all
    have "pow2 (f + 1) \<le> pow2 e" using fe by (rule pow2_mono)
    then have c2: "2 ^ 52 * (pow2 f * 2) \<le> 2 ^ 52 * pow2 e"
      unfolding pow2_Suc by (intro mult_left_mono) simp_all
    have "z * pow2 f < 2 ^ 53 * pow2 f"
      using z_hi by (intro mult_strict_right_mono) simp_all
    also have "\<dots> = 2 ^ 52 * (pow2 f * 2)" by simp
    also note c2
    also note c1
    finally have "x < a" unfolding v1 v2 .
    with assms(2) show False by simp
  qed
  show ?thesis
  proof (cases "e = f")
    case True
    have "y * pow2 f \<le> z * pow2 f" using assms(2) v1 v2 True by simp
    then have "y \<le> z" by simp
    then have "roundHalfEven y \<le> roundHalfEven z" by (rule roundHalfEven_mono)
    then have "(of_int (roundHalfEven y) :: real) \<le> of_int (roundHalfEven z)" by simp
    then have "of_int (roundHalfEven y) * pow2 f \<le> of_int (roundHalfEven z) * pow2 f"
      by (intro mult_right_mono) simp_all
    then show ?thesis unfolding r1 r2 True .
  next
    case False
    with ef have lt: "e + 1 \<le> f" by simp
    then have "- 1074 < f" using e_lo by simp
    with z_lo have "of_int (2 ^ 52) \<le> z" by simp
    then have "2 ^ 52 \<le> roundHalfEven z" by (rule roundHalfEven_ge)
    then have "(of_int (2 ^ 52) :: real) \<le> of_int (roundHalfEven z)" by (simp only: of_int_le_iff)
    then have zl: "(2 ^ 52 :: real) \<le> of_int (roundHalfEven z)" by simp
    have "y \<le> of_int (2 ^ 53)" using y_hi by simp
    then have "roundHalfEven y \<le> 2 ^ 53" by (rule roundHalfEven_le)
    then have "(of_int (roundHalfEven y) :: real) \<le> of_int (2 ^ 53)" by (simp only: of_int_le_iff)
    then have yh: "(of_int (roundHalfEven y) :: real) \<le> 2 ^ 53" by simp
    have "of_int (roundHalfEven y) * pow2 e \<le> 2 ^ 53 * pow2 e"
      using yh by (intro mult_right_mono) simp_all
    also have "\<dots> = 2 ^ 52 * pow2 (e + 1)" by (simp add: pow2_Suc)
    also have "\<dots> \<le> 2 ^ 52 * pow2 f"
      using pow2_mono [OF lt] by (intro mult_left_mono) simp_all
    also have "\<dots> \<le> of_int (roundHalfEven z) * pow2 f"
      using zl by (intro mult_right_mono) simp_all
    finally show ?thesis unfolding r1 r2 .
  qed
qed

lemma round_pos_nonneg:
  assumes "0 < x"
  shows "0 \<le> round_pos x"
proof -
  obtain y e where m1: "mantissa_exponent x = (y, e)" by (cases "mantissa_exponent x")
  from mantissa_exponent_spec [OF assms m1] have "of_int 0 \<le> y" by simp
  then have "0 \<le> roundHalfEven y" by (rule roundHalfEven_ge)
  then show ?thesis by (simp add: round_pos_def m1)
qed

lemma round_pos_upper:
  assumes "0 < x"
  shows "round_pos x \<le> 2 * x + 1"
proof -
  obtain y e where m1: "mantissa_exponent x = (y, e)" by (cases "mantissa_exponent x")
  note s1 = mantissa_exponent_spec [OF assms m1]
  have v1: "y * pow2 e = x" and y_pos: "0 < y"
    and e_lo: "- 1074 \<le> e" and y_lo: "- 1074 < e \<longrightarrow> 2 ^ 52 \<le> y"
    using s1 by simp_all
  have "roundHalfEven y \<le> \<lfloor>y\<rfloor> + 1" using roundHalfEven_bounds [of y] by simp
  then have "(of_int (roundHalfEven y) :: real) \<le> of_int (\<lfloor>y\<rfloor> + 1)" by (simp only: of_int_le_iff)
  then have "of_int (roundHalfEven y) \<le> y + 1" by simp linarith
  then have "of_int (roundHalfEven y) * pow2 e \<le> (y + 1) * pow2 e"
    by (intro mult_right_mono) simp_all
  then have a: "round_pos x \<le> x + pow2 e"
    using v1 by (simp add: round_pos_def m1 algebra_simps)
  have "pow2 e \<le> x + 1"
  proof (cases "e \<le> 0")
    case True
    then have "pow2 e \<le> 1" by (rule pow2_le_one)
    with assms show ?thesis by simp
  next
    case False
    then have "- 1074 < e" by simp
    with y_lo have "2 ^ 52 \<le> y" by simp
    then have "1 \<le> y" by (rule order_trans [rotated]) simp
    then have "1 * pow2 e \<le> y * pow2 e" by (intro mult_right_mono) simp_all
    with v1 show ?thesis by simp
  qed
  with a show ?thesis by simp
qed

lemma js_le_Fin_iff: "js_le (Fin a) x = (x = PInf \<or> (\<exists>r. x = Fin r \<and> a \<le> r))"
  by (cases x) simp_all

lemma round_double_pos:
  "0 < x \<Longrightarrow> round_double x = (if 2 ^ 1024 \<le> round_pos x then PInf else Fin (round_pos x))"
  by (simp add: round_double_def Let_def)

lemma round_double_nonneg: "0 \<le> x \<Longrightarrow> js_le (Fin 0) (round_double x)"
proof (cases "x = 0")
  case True
  then show ?thesis by (simp add: round_double_def)
next
  case False
  assume "0 \<le> x"
  with False have p: "0 < x" by simp
  show ?thesis using round_pos_nonneg [OF p] by (simp add: round_double_pos [OF p])
qed

lemma is_double_round_pos: "0 < a \<Longrightarrow> is_double a \<Longrightarrow> round_pos a = a \<and> a < 2 ^ 1024"
  by (simp add: is_double_def round_double_pos split: if_splits)

lemma round_double_ge:
  assumes "0 < a" and "a \<le> x" and "is_double a"
  shows "js_le (Fin a) (round_double x)"
proof -
  have p: "0 < x" using assms by simp
  have "round_pos a = a" using is_double_round_pos [OF assms(1,3)] by simp
  with round_pos_mono [OF assms(1,2)] have "a \<le> round_pos x" by simp
  then show ?thesis by (simp add: round_double_pos [OF p])
qed

lemma round_double_finite:
  assumes "0 \<le> x" and "2 * x + 1 < 2 ^ 1024"
  shows "\<exists>r. round_double x = Fin r \<and> 0 \<le> r \<and> r \<le> 2 * x + 1"
proof (cases "x = 0")
  case True
  then show ?thesis by (simp add: round_double_def)
next
  case False
  with assms(1) have p: "0 < x" by simp
  have "round_pos x \<le> 2 * x + 1" by (rule round_pos_upper [OF p])
  moreover from this assms(2) have "\<not> 2 ^ 1024 \<le> round_pos x" by simp
  ultimately show ?thesis using round_pos_nonneg [OF p] by (simp add: round_double_pos [OF p])
qed

lemma is_double_one: "is_double 1"
  by (simp add: is_double_def round_double_def round_pos_def mantissa_exponent_def
        normalise_def roundHalfEven_def pow2_def)

lemma js_max_ge:
  assumes "js_le (Fin a) x" and "js_le (Fin 0) y"
  shows "js_le (Fin a) (js_max x y)"
  using assms by (cases x; cases y) auto

lemma targetByMinProfit_nonneg:
  assumes "0 \<le> avg" and "0 < qty" and "0 \<le> m"
  shows "js_le (Fin 0) (fl_div (fl_add (fl_mul (Fin avg) (Fin qty)) (Fin m)) (Fin qty))"
proof -
  have "0 \<le> avg * qty" using assms by simp
  then have "js_le (Fin 0) (round_double (avg * qty))" by (rule round_double_nonneg)
  then consider "fl_mul (Fin avg) (Fin qty) = PInf"
    | s where "fl_mul (Fin avg) (Fin qty) = Fin s" "0 \<le> s"
    by (auto simp: fl_mul_def js_le_Fin_iff)
  then show ?thesis
  proof cases
    case 1
    then show ?thesis using assms(2) by (simp add: fl_add_def fl_div_def)
  next
    case 2
    have "0 \<le> s + m" using 2 assms by simp
    then have "js_le (Fin 0) (round_double (s + m))" by (rule round_double_nonneg)
    then consider "fl_add (Fin s) (Fin m) = PInf"
      | u where "fl_add (Fin s) (Fin m) = Fin u" "0 \<le> u"
      by (auto simp: fl_add_def js_le_Fin_iff)
    then show ?thesis
    proof cases
      case 1
      then show ?thesis using assms(2) 2 by (simp add: fl_div_def)
    next
      case 2
      have "0 \<le> u / qty" using 2 assms by simp
      then have "js_le (Fin 0) (round_double (u / qty))" by (rule round_double_nonneg)
      then show ?thesis using assms(2) 2 \<open>fl_mul (Fin avg) (Fin qty) = Fin s\<close>
        by (simp add: fl_div_def)
    qed
  qed
qed

lemma targetByPercent_ge:
  assumes "0 \<le> avg" and "is_double avg" and "0 \<le> p" and "is_double p"
  shows "js_le (Fin avg) (fl_mul (Fin avg) (fl_add (Fin 1) (fl_div (Fin p) (Fin 100))))"
proof -
  have pb: "p < 2 ^ 1024"
  proof (cases "p = 0")
    case True
    then show ?thesis by simp
  next
    case False
    with assms(3) have "0 < p" by simp
    from is_double_round_pos [OF this assms(4)] show ?thesis by simp
  qed
  have "0 \<le> p / 100" using assms(3) by simp
  moreover have "2 * (p / 100) + 1 < 2 ^ 1024" using pb by simp
  ultimately obtain r where r: "round_double (p / 100) = Fin r" "0 \<le> r" "r \<le> 2 * (p / 100) + 1"
    using round_double_finite by blast
  have d: "fl_div (Fin p) (Fin 100) = Fin r" using r(1) by (simp add: fl_div_def)
  have "0 \<le> 1 + r" using r(2) by simp
  moreover have "2 * (1 + r) + 1 < 2 ^ 1024" using r(3) pb by simp
  ultimately obtain r2 where r2: "round_double (1 + r) = Fin r2"
    using round_double_finite by blast
  have "js_le (Fin 1) (round_double (1 + r))"
    using r(2) by (intro round_double_ge is_double_one) simp_all
  with r2 have one: "1 \<le> r2" by simp
  have y: "fl_add (Fin 1) (fl_div (Fin p) (Fin 100)) = Fin r2"
    using r2 by (simp add: d fl_add_def)
  show ?thesis
  proof (cases "avg = 0")
    case True
    then show ?thesis by (simp add: y fl_mul_def round_double_def)
  next
    case False
    with assms(1) have pos: "0 < avg" by simp
    have "avg * 1 \<le> avg * r2" using one pos by (intro mult_left_mono) simp_all
    then have "avg \<le> avg * r2" by simp
    from round_double_ge [OF pos this assms(2)] show ?thesis by (simp add: y fl_mul_def)
  qed
qed

section \<open>Target price\<close>

text \<open>
  C7, for an average price that is not negative: when the average price and the profit
  target percentage are doubles that are not negative, the quantity is above zero and the
  minimum profit amount is not negative, the target price computed in double precision is
  at least the average price (it may be \<open>Infinity\<close>, it is never \<open>NaN\<close>). The candidate
  \<open>avg * (1 + profitTargetPercent / 100)\<close> alone ensures it: the factor rounds to a double
  that is at least 1, and rounding a product that is at least the double \<open>avg\<close> cannot go
  below \<open>avg\<close>.
\<close>

theorem calculateTargetPrice_ge_avg:
  assumes "0 \<le> avg" and "is_double avg" and "0 < qty"
    and "0 \<le> p" and "is_double p" and "0 \<le> m"
    and "profitTargetPercent s = Fin p" and "minProfitAmount s = Fin m"
  shows "js_ge (calculateTargetPrice (Fin avg) (Fin qty) s) (Fin avg)"
  unfolding js_ge_def calculateTargetPrice_def Let_def assms(7,8)
  by (intro js_max_ge targetByPercent_ge targetByMinProfit_nonneg assms)

theorem calculateTargetPrice_ge_avg_witness:
  "is_double 100 \<and> is_double 6
   \<and> calculateTargetPrice (Fin 100) (Fin 10) defaultSettings = Fin 150
   \<and> js_ge (calculateTargetPrice (Fin 100) (Fin 10) defaultSettings) (Fin 100)"
proof -
  have d: "is_double 100" "is_double 6"
    by (simp_all add: is_double_def round_double_def round_pos_def mantissa_exponent_def
          normalise_def roundHalfEven_def pow2_def)
  have v: "calculateTargetPrice (Fin 100) (Fin 10) defaultSettings = Fin 150"
    by (simp add: calculateTargetPrice_def defaultSettings_def fl_add_def fl_mul_def fl_div_def
          round_double_def round_pos_def mantissa_exponent_def normalise_def roundHalfEven_def
          pow2_def)
  have g: "js_ge (calculateTargetPrice (Fin 100) (Fin 10) defaultSettings) (Fin 100)"
    using calculateTargetPrice_ge_avg [of 100 10 6 500 defaultSettings] d
    by (simp add: defaultSettings_def)
  show ?thesis by (intro conjI d v g)
qed

subsection \<open>A negative average price\<close>

lemma mantissa_exponent_tenth: "mantissa_exponent (1 / 10) = (36028797018963968 / 5, - 56)"
  by (simp add: mantissa_exponent_def normalise_def)

lemma round_double_minus_tenth: "round_double (- 0.1) = Fin (- 3602879701896397 / 2 ^ 55)"
  by (simp add: round_double_def round_pos_def mantissa_exponent_tenth roundHalfEven_def pow2_def)

lemma round_double_fixes_minus_tenth: "round_double (- 3602879701896397 / 2 ^ 55) = Fin (- 3602879701896397 / 2 ^ 55)"
  by (simp add: round_double_def round_pos_def mantissa_exponent_def normalise_def roundHalfEven_def pow2_def)

lemma percent_quotient: "fl_div (Fin 6) (Fin 100) = Fin (1080863910568919 / 2 ^ 54)"
  by (simp add: fl_div_def round_double_def round_pos_def mantissa_exponent_def
        normalise_def roundHalfEven_def pow2_def)

lemma percent_factor: "fl_add (Fin 1) (Fin (1080863910568919 / 2 ^ 54)) = Fin (2386907802506363 / 2 ^ 51)"
  by (simp add: fl_add_def round_double_def round_pos_def mantissa_exponent_def
        normalise_def roundHalfEven_def pow2_def)

lemma percent_candidate: "fl_mul (Fin (- 3602879701896397 / 2 ^ 55)) (Fin (2386907802506363 / 2 ^ 51))
    = Fin (- 3819052484010181 / 2 ^ 55)"
  by (simp add: fl_mul_def round_double_def round_pos_def mantissa_exponent_def
        normalise_def roundHalfEven_def pow2_def)

lemma amount_product: "fl_mul (Fin (- 3602879701896397 / 2 ^ 55)) (Fin 3) = Fin (- 1351079888211149 / 2 ^ 52)"
  by (simp add: fl_mul_def round_double_def round_pos_def mantissa_exponent_def
        normalise_def roundHalfEven_def pow2_def)

lemma amount_sum: "fl_add (Fin (- 1351079888211149 / 2 ^ 52)) (Fin 0) = Fin (- 1351079888211149 / 2 ^ 52)"
  by (simp add: fl_add_def round_double_def round_pos_def mantissa_exponent_def
        normalise_def roundHalfEven_def pow2_def)

lemma amount_candidate: "fl_div (Fin (- 1351079888211149 / 2 ^ 52)) (Fin 3) = Fin (- 7205759403792795 / 2 ^ 56)"
  by (simp add: fl_div_def round_double_def round_pos_def mantissa_exponent_def
        normalise_def roundHalfEven_def pow2_def)

text \<open>
  C7 as the specification states it covers every average price. For the double nearest to
  \<open>- 0.1\<close>, quantity 3, a profit target of 6 percent and a minimum profit amount of 0 the
  candidate \<open>avg * (1 + 6 / 100)\<close> is below the average price, and in
  \<open>(avg * 3 + 0) / 3\<close> the product rounds down and the quotient does not come back to
  \<open>avg\<close>: the target price is the double just below the average price
  (\<open>- 0.10000000000000002\<close>).
\<close>

theorem calculateTargetPrice_negative_avg_counterexample:
  "round_double (- 0.1) = Fin (- 3602879701896397 / 2 ^ 55)
   \<and> is_double (- 3602879701896397 / 2 ^ 55)
   \<and> calculateTargetPrice (Fin (- 3602879701896397 / 2 ^ 55)) (Fin 3) (defaultSettings\<lparr>minProfitAmount := Fin 0\<rparr>)
       = Fin (- 7205759403792795 / 2 ^ 56)
   \<and> js_lt (calculateTargetPrice (Fin (- 3602879701896397 / 2 ^ 55)) (Fin 3) (defaultSettings\<lparr>minProfitAmount := Fin 0\<rparr>))
       (Fin (- 3602879701896397 / 2 ^ 55))
   \<and> \<not> js_ge (calculateTargetPrice (Fin (- 3602879701896397 / 2 ^ 55)) (Fin 3) (defaultSettings\<lparr>minProfitAmount := Fin 0\<rparr>))
       (Fin (- 3602879701896397 / 2 ^ 55))"
proof -
  have v: "calculateTargetPrice (Fin (- 3602879701896397 / 2 ^ 55)) (Fin 3) (defaultSettings\<lparr>minProfitAmount := Fin 0\<rparr>)
       = Fin (- 7205759403792795 / 2 ^ 56)"
    by (simp add: calculateTargetPrice_def defaultSettings_def percent_quotient [simplified] percent_factor [simplified]
          percent_candidate [simplified] amount_product [simplified] amount_sum [simplified] amount_candidate [simplified])
  have d: "is_double (- 3602879701896397 / 2 ^ 55)"
    unfolding is_double_def by (rule round_double_fixes_minus_tenth)
  show ?thesis unfolding v js_ge_def using d round_double_minus_tenth by simp
qed

section \<open>Lot matching\<close>

lemma sell_loop_done:
  "js_le n (Fin 0) \<Longrightarrow> sell_loop xs sold rem n = \<lparr>soldHoldings = sold, remaining = rem @ xs\<rparr>"
  by (induction xs arbitrary: rem) auto

lemma sell_loop_consume:
  "sell_loop xs sold rem n =
     \<lparr>soldHoldings = sold @ fst (consume xs n), remaining = rem @ snd (consume xs n)\<rparr>"
proof (induction xs arbitrary: sold rem n)
  case Nil
  show ?case by simp
next
  case (Cons h hs)
  show ?case
  proof (cases "js_le n (Fin 0)")
    case True
    then show ?thesis using sell_loop_done [OF True, of "h # hs" sold rem] by simp
  next
    case False
    then show ?thesis
      using sell_loop_done [of "Fin 0" hs] by (auto simp: Cons.IH)
  qed
qed

lemma sellFIFO_consume:
  "sellFIFO hs n = \<lparr>soldHoldings = fst (consume (sort_key buyDate hs) n),
                    remaining = snd (consume (sort_key buyDate hs) n)\<rparr>"
  using sell_loop_consume [of "sort_key buyDate hs" "[]" "[]" n] by (simp add: sellFIFO_def)

lemma consume_order:
  "map holding (fst (consume xs n)) = take (length (fst (consume xs n))) xs"
  by (induction xs arbitrary: n) auto

lemma consume_whole:
  "\<forall>s\<in>set (butlast (fst (consume xs n))). quantitySold s = quantity (holding s)"
  by (induction xs arbitrary: n) auto

lemma consume_bounds:
  "lots_ok xs \<Longrightarrow> \<forall>s\<in>set (fst (consume xs (Fin n))).
      js_le (quantitySold s) (quantity (holding s)) \<and> js_gt (quantitySold s) (Fin 0)"
  by (induction xs arbitrary: n) (auto simp: lots_ok_def)

lemma lots_total_nonneg:
  "lots_ok xs \<Longrightarrow> 0 \<le> sum_list (map (\<lambda>h. finVal (quantity h)) xs)"
  by (induction xs) (auto simp: lots_ok_def)

lemma consume_amount:
  "lots_ok xs \<Longrightarrow> 0 \<le> n \<Longrightarrow>
     sum_list (map (\<lambda>s. finVal (quantitySold s)) (fst (consume xs (Fin n))))
       = min n (sum_list (map (\<lambda>h. finVal (quantity h)) xs))"
proof (induction xs arbitrary: n)
  case Nil
  then show ?case by simp
next
  case (Cons h hs)
  from Cons.prems(1) obtain q where q: "quantity h = Fin q" "0 < q" and ok: "lots_ok hs"
    by (auto simp: lots_ok_def)
  have tot: "0 \<le> sum_list (map (\<lambda>h. finVal (quantity h)) hs)"
    using ok by (rule lots_total_nonneg)
  show ?case
  proof (cases "q \<le> n")
    case True
    then have "0 \<le> n - q" by simp
    from Cons.IH [OF ok this] True q Cons.prems(2) tot show ?thesis by auto
  next
    case False
    with q Cons.prems(2) tot show ?thesis by auto
  qed
qed

lemma consume_remaining:
  "lots_ok xs \<Longrightarrow> snd (consume xs (Fin n)) =
     (let sold = fst (consume xs (Fin n))
      in (if sold \<noteq> [] \<and> quantitySold (last sold) \<noteq> quantity (holding (last sold))
          then [(holding (last sold))\<lparr>quantity :=
                   js_sub (quantity (holding (last sold))) (quantitySold (last sold))\<rparr>]
          else []) @ drop (length sold) xs)"
proof (induction xs arbitrary: n)
  case Nil
  then show ?case by simp
next
  case (Cons h hs)
  from Cons.prems(1) obtain q where q: "quantity h = Fin q" "0 < q" and ok: "lots_ok hs"
    by (auto simp: lots_ok_def)
  show ?case
    using Cons.IH [OF ok, of "n - q"] q by (auto simp: Let_def)
qed

lemma consume_nothing: "n \<le> 0 \<Longrightarrow> consume xs (Fin n) = ([], xs)"
  by (cases xs) auto

lemma sorted_total:
  "sum_list (map (\<lambda>h. finVal (quantity h)) (sort_key buyDate hs))
     = sum_list (map (\<lambda>h. finVal (quantity h)) hs)"
proof -
  have "mset (map (\<lambda>h. finVal (quantity h)) (sort_key buyDate hs))
          = mset (map (\<lambda>h. finVal (quantity h)) hs)"
    by simp
  then have "sum_mset (mset (map (\<lambda>h. finVal (quantity h)) (sort_key buyDate hs)))
          = sum_mset (mset (map (\<lambda>h. finVal (quantity h)) hs))"
    by (rule arg_cong)
  then show ?thesis by (simp only: sum_mset_sum_list)
qed

lemma sort_key_perm_distinct:
  assumes "mset ys = mset xs" and "distinct (map f xs)"
  shows "sort_key f ys = sort_key f xs"
proof -
  have m: "mset (map f ys) = mset (map f xs)" using assms(1) by simp
  have dy: "distinct (map f ys)" using assms(2) m by (metis mset_eq_imp_distinct_iff)
  have s: "set xs = set ys" using assms(1) by (metis set_mset_mset)
  have keys: "map f (sort_key f ys) = map f (sort_key f xs)"
  proof (rule sorted_distinct_set_unique)
    show "sorted (map f (sort_key f ys))" by (rule sorted_sort_key)
    show "sorted (map f (sort_key f xs))" by (rule sorted_sort_key)
    show "distinct (map f (sort_key f ys))" using dy by (simp add: distinct_map)
    show "distinct (map f (sort_key f xs))" using assms(2) by (simp add: distinct_map)
    show "set (map f (sort_key f ys)) = set (map f (sort_key f xs))" using s by simp
  qed
  have "inj_on f (set xs)" using assms(2) by (simp add: distinct_map)
  then have "inj_on f (set (sort_key f ys) \<union> set (sort_key f xs))" using s by simp
  from inj_on_map_eq_map [OF this] keys show ?thesis by blast
qed

text \<open>
  C4: \<open>sellFIFO\<close> orders the lots by purchase date, oldest first, and consumes them in that
  order. For lots with finite quantities above zero and a finite requested quantity \<open>n\<close>:
  the sold lots are the first lots of the date-ordered list, none skipped; every sold lot
  but the last is sold whole, and the last for at most its quantity; for \<open>n \<ge> 0\<close> the
  quantities sold add up to \<open>n\<close>, or to the total held if that is less; for \<open>n \<le> 0\<close>
  nothing is sold; and the remaining list is the untouched rest of the ordered list,
  headed by the split lot with its quantity reduced when the last lot was sold in part.
  Selling 15 from three lots of 10 (in any order of the input) sells lot 1 whole and 5 of
  lot 2, leaving lot 2 at 5 and lot 3 at 10.
\<close>

theorem sellFIFO_oldest_first:
  assumes ok: "lots_ok hs"
  shows "(let srt = sort_key buyDate hs; r = sellFIFO hs (Fin n); sold = soldHoldings r
      in sorted (map buyDate srt) \<and> mset srt = mset hs
       \<and> map holding sold = take (length sold) srt
       \<and> (\<forall>s\<in>set (butlast sold). quantitySold s = quantity (holding s))
       \<and> (\<forall>s\<in>set sold. js_le (quantitySold s) (quantity (holding s))
                          \<and> js_gt (quantitySold s) (Fin 0))
       \<and> (0 \<le> n \<longrightarrow> sum_list (map (\<lambda>s. finVal (quantitySold s)) sold)
                        = min n (sum_list (map (\<lambda>h. finVal (quantity h)) hs)))
       \<and> (n \<le> 0 \<longrightarrow> sold = [] \<and> remaining r = srt)
       \<and> remaining r =
           (if sold \<noteq> [] \<and> quantitySold (last sold) \<noteq> quantity (holding (last sold))
            then [(holding (last sold))\<lparr>quantity :=
                     js_sub (quantity (holding (last sold))) (quantitySold (last sold))\<rparr>]
            else []) @ drop (length sold) srt)
    \<and> sellFIFO [lot1, lot2, lot3] (Fin 15) =
       \<lparr>soldHoldings = [\<lparr>holding = lot1, quantitySold = Fin 10\<rparr>,
                        \<lparr>holding = lot2, quantitySold = Fin 5\<rparr>],
        remaining = [lot2\<lparr>quantity := Fin 5\<rparr>, lot3]\<rparr>
    \<and> sellFIFO [lot3, lot1, lot2] (Fin 15) = sellFIFO [lot1, lot2, lot3] (Fin 15)"
proof -
  let ?srt = "sort_key buyDate hs"
  let ?c = "consume ?srt (Fin n)"
  have oks: "lots_ok ?srt" using ok by (simp add: lots_ok_def)
  have r: "soldHoldings (sellFIFO hs (Fin n)) = fst ?c" "remaining (sellFIFO hs (Fin n)) = snd ?c"
    by (simp_all add: sellFIFO_consume)
  have g1: "sorted (map buyDate ?srt)" by (rule sorted_sort_key)
  have g1': "mset ?srt = mset hs" by (rule mset_sort)
  have g2: "map holding (fst ?c) = take (length (fst ?c)) ?srt"
    by (rule consume_order)
  have g3: "\<forall>s\<in>set (butlast (fst ?c)). quantitySold s = quantity (holding s)"
    by (rule consume_whole)
  note g4 = consume_bounds [OF oks, of n]
  have amount: "0 \<le> n \<longrightarrow> sum_list (map (\<lambda>s. finVal (quantitySold s)) (fst ?c))
        = min n (sum_list (map (\<lambda>h. finVal (quantity h)) hs))"
    using consume_amount [OF oks, of n] by (simp only: sorted_total) simp
  have g5: "n \<le> 0 \<longrightarrow> fst ?c = [] \<and> snd ?c = ?srt"
    using consume_nothing [of n ?srt] by simp
  note g6 = consume_remaining [OF oks, of n, unfolded Let_def]
  have ex1: "sellFIFO [lot1, lot2, lot3] (Fin 15) =
       \<lparr>soldHoldings = [\<lparr>holding = lot1, quantitySold = Fin 10\<rparr>,
                        \<lparr>holding = lot2, quantitySold = Fin 5\<rparr>],
        remaining = [lot2\<lparr>quantity := Fin 5\<rparr>, lot3]\<rparr>"
    by (simp add: sellFIFO_def lot1_def lot2_def lot3_def)
  have ex2: "sellFIFO [lot3, lot1, lot2] (Fin 15) = sellFIFO [lot1, lot2, lot3] (Fin 15)"
    by (simp add: sellFIFO_def lot1_def lot2_def lot3_def)
  show ?thesis
    unfolding Let_def r
    by (intro conjI g1 g1' g2 g3 g4 amount g5 g6 ex1 ex2)
qed

theorem sellFIFO_oldest_first_witness:
  "lots_ok [lot3, lot1, lot2]
   \<and> map holding (soldHoldings (sellFIFO [lot3, lot1, lot2] (Fin 15))) =
       take (length (soldHoldings (sellFIFO [lot3, lot1, lot2] (Fin 15))))
         (sort_key buyDate [lot3, lot1, lot2])"
proof -
  have ok: "lots_ok [lot3, lot1, lot2]"
    by (simp add: lots_ok_def lot1_def lot2_def lot3_def)
  from sellFIFO_oldest_first [OF ok, of 15]
  have "map holding (soldHoldings (sellFIFO [lot3, lot1, lot2] (Fin 15))) =
       take (length (soldHoldings (sellFIFO [lot3, lot1, lot2] (Fin 15))))
         (sort_key buyDate [lot3, lot1, lot2])"
    unfolding Let_def by (elim conjE)
  with ok show ?thesis by (rule conjI)
qed

lemma sorted_distinct_split:
  assumes "sorted (map f xs)" and "distinct (map f xs)"
  shows "\<forall>x\<in>set (take k xs). \<forall>y\<in>set (drop k xs). f x < f y"
proof (intro ballI)
  fix x y
  assume x: "x \<in> set (take k xs)" and y: "y \<in> set (drop k xs)"
  have s: "sorted (map f (take k xs) @ map f (drop k xs))"
    using assms(1) by (simp flip: map_append)
  have d: "distinct (map f (take k xs) @ map f (drop k xs))"
    using assms(2) by (simp flip: map_append)
  from s x y have "f x \<le> f y" by (auto simp: sorted_append)
  moreover from d x y have "f x \<noteq> f y" by auto
  ultimately show "f x < f y" by simp
qed

text \<open>
  C2, as the code has it: the matching engine has the one function \<open>sellFIFO\<close>, and there is
  no variant that consumes the newest lot first. The function sorts its input itself, so
  the order in which the lots are passed has no effect: lots with distinct purchase dates,
  passed in any order (newest first, for one), are consumed oldest first. The lots sold
  are the first lots of the list ordered by purchase date, none skipped, and every lot
  sold was bought before every lot beyond them. Selling 15 from the three lots of 10 passed
  newest first sells the oldest whole and 5 of the middle one, leaving the middle one at 5
  and the newest untouched at 10.
\<close>

theorem sellFIFO_input_order_irrelevant:
  assumes "mset hs' = mset hs" and "distinct (map buyDate hs)"
  shows "sellFIFO hs' n = sellFIFO hs n
    \<and> sellFIFO (rev hs) n = sellFIFO hs n
    \<and> map holding (soldHoldings (sellFIFO hs' n)) =
        take (length (soldHoldings (sellFIFO hs' n))) (sort_key buyDate hs)
    \<and> sorted (map buyDate (sort_key buyDate hs))
    \<and> (\<forall>s\<in>set (soldHoldings (sellFIFO hs' n)).
         \<forall>h\<in>set (drop (length (soldHoldings (sellFIFO hs' n))) (sort_key buyDate hs)).
           buyDate (holding s) < buyDate h)
    \<and> sellFIFO [lot3, lot2, lot1] (Fin 15) =
       \<lparr>soldHoldings = [\<lparr>holding = lot1, quantitySold = Fin 10\<rparr>,
                        \<lparr>holding = lot2, quantitySold = Fin 5\<rparr>],
        remaining = [lot2\<lparr>quantity := Fin 5\<rparr>, lot3]\<rparr>"
proof -
  let ?srt = "sort_key buyDate hs"
  let ?sold = "soldHoldings (sellFIFO hs' n)"
  have srt: "sort_key buyDate hs' = ?srt"
    by (rule sort_key_perm_distinct [OF assms])
  have a: "sellFIFO hs' n = sellFIFO hs n"
    using srt by (simp add: sellFIFO_def)
  have "mset (rev hs) = mset hs" by simp
  from sort_key_perm_distinct [OF this assms(2)]
  have b: "sellFIFO (rev hs) n = sellFIFO hs n"
    by (simp add: sellFIFO_def)
  have p: "map holding ?sold = take (length ?sold) ?srt"
    using consume_order [of ?srt n] by (simp add: sellFIFO_consume srt)
  have so: "sorted (map buyDate ?srt)" by (rule sorted_sort_key)
  have di: "distinct (map buyDate ?srt)"
    using assms(2) by (simp add: distinct_map)
  have o: "\<forall>s\<in>set ?sold. \<forall>h\<in>set (drop (length ?sold) ?srt). buyDate (holding s) < buyDate h"
  proof (intro ballI)
    fix s h
    assume s: "s \<in> set ?sold" and h: "h \<in> set (drop (length ?sold) ?srt)"
    from s have "holding s \<in> set (map holding ?sold)" by simp
    then have "holding s \<in> set (take (length ?sold) ?srt)" by (simp only: p)
    with sorted_distinct_split [OF so di, of "length ?sold"] h
    show "buyDate (holding s) < buyDate h" by blast
  qed
  have c: "sellFIFO [lot3, lot2, lot1] (Fin 15) =
       \<lparr>soldHoldings = [\<lparr>holding = lot1, quantitySold = Fin 10\<rparr>,
                        \<lparr>holding = lot2, quantitySold = Fin 5\<rparr>],
        remaining = [lot2\<lparr>quantity := Fin 5\<rparr>, lot3]\<rparr>"
    by (simp add: sellFIFO_def lot1_def lot2_def lot3_def)
  show ?thesis by (intro conjI a b p so o c)
qed

theorem sellFIFO_input_order_irrelevant_witness:
  "mset [lot3, lot2, lot1] = mset [lot1, lot2, lot3]
   \<and> distinct (map buyDate [lot1, lot2, lot3])
   \<and> sellFIFO [lot3, lot2, lot1] (Fin 15) = sellFIFO [lot1, lot2, lot3] (Fin 15)"
proof -
  have m: "mset [lot3, lot2, lot1] = mset [lot1, lot2, lot3]" by simp
  have d: "distinct (map buyDate [lot1, lot2, lot3])"
    by (simp add: lot1_def lot2_def lot3_def)
  from sellFIFO_input_order_irrelevant [OF m d, of "Fin 15"]
  have "sellFIFO [lot3, lot2, lot1] (Fin 15) = sellFIFO [lot1, lot2, lot3] (Fin 15)"
    by (elim conjE)
  with m d show ?thesis by (intro conjI)
qed

text \<open>
  C2 as the specification states it has the newest lot consumed whole and 5 taken from the
  middle lot, the oldest left untouched. On the three lots the engine leaves the newest
  untouched and sells the oldest.
\<close>

theorem sellFIFO_not_newest_first_counterexample:
  "soldHoldings (sellFIFO [lot1, lot2, lot3] (Fin 15)) \<noteq>
     [\<lparr>holding = lot3, quantitySold = Fin 10\<rparr>, \<lparr>holding = lot2, quantitySold = Fin 5\<rparr>]
   \<and> remaining (sellFIFO [lot1, lot2, lot3] (Fin 15)) \<noteq> [lot1, lot2\<lparr>quantity := Fin 5\<rparr>]
   \<and> map holdingId (remaining (sellFIFO [lot1, lot2, lot3] (Fin 15))) = [2, 3]"
  by (simp add: sellFIFO_def lot1_def lot2_def lot3_def)

section \<open>XIRR solver\<close>

lemma js_add_NaN [simp]: "js_add x NaN = NaN"
  by (cases x) simp_all

lemma js_mul_NaN [simp]: "js_mul x NaN = NaN"
  by (cases x) simp_all

lemma js_div_NaN [simp]: "js_div x NaN = NaN"
  by (cases x) simp_all

lemma js_sub_NaN [simp]: "js_sub x NaN = NaN" "js_sub NaN x = NaN"
  by (simp_all add: js_sub_def)

lemma js_lt_NaN [simp]: "\<not> js_lt x NaN"
  by (cases x) simp_all

lemma newtonLoop_Suc:
  "newtonLoop f f' (Suc k) r =
     (if js_lt (js_abs (f' r)) (Fin (1 / 10 ^ 10)) then
        \<lparr>result = js_mul r (Fin 100), updates = 0, exit = DerivativeTooSmall\<rparr>
      else if js_lt (js_abs (js_sub (newtonStep f f' r) r)) (Fin (1 / 10 ^ 7)) then
        \<lparr>result = js_mul (newtonStep f f' r) (Fin 100), updates = 1, exit = Converged\<rparr>
      else (newtonLoop f f' k (newtonStep f f' r))
             \<lparr>updates := Suc (updates (newtonLoop f f' k (newtonStep f f' r)))\<rparr>)"
  by (simp add: Let_def newtonStep_def)

lemma newtonLoop_updates_le: "updates (newtonLoop f f' k r) \<le> k"
  by (induction k arbitrary: r) (simp_all add: newtonLoop_Suc del: newtonLoop.simps(2))

lemma newtonLoop_started: "exit (newtonLoop f f' k r) \<noteq> NotStarted"
  by (induction k arbitrary: r) (simp_all add: newtonLoop_Suc del: newtonLoop.simps(2))

lemma newtonLoop_cap: "exit (newtonLoop f f' k r) = CapReached \<Longrightarrow> updates (newtonLoop f f' k r) = k"
  by (induction k arbitrary: r) (simp_all add: newtonLoop_Suc del: newtonLoop.simps(2) split: if_splits)

lemma newtonLoop_result:
  "result (newtonLoop f f' k r) =
     js_mul ((newtonStep f f' ^^ updates (newtonLoop f f' k r)) r) (Fin 100)"
  by (induction k arbitrary: r) (simp_all add: newtonLoop_Suc funpow_swap1 del: newtonLoop.simps(2))

lemma newtonLoop_small:
  "exit (newtonLoop f f' k r) = DerivativeTooSmall \<Longrightarrow>
     js_lt (js_abs (f' ((newtonStep f f' ^^ updates (newtonLoop f f' k r)) r))) (Fin (1 / 10 ^ 10))"
  by (induction k arbitrary: r)
     (simp_all add: newtonLoop_Suc funpow_swap1 del: newtonLoop.simps(2) split: if_splits)

lemma newtonLoop_converged:
  "exit (newtonLoop f f' k r) = Converged \<Longrightarrow>
     (\<exists>m. updates (newtonLoop f f' k r) = Suc m \<and>
     js_lt (js_abs (js_sub ((newtonStep f f' ^^ Suc m) r) ((newtonStep f f' ^^ m) r)))
           (Fin (1 / 10 ^ 7)))"
proof (induction k arbitrary: r)
  case 0
  then show ?case by simp
next
  case (Suc k)
  show ?case
  proof (cases "js_lt (js_abs (f' r)) (Fin (1 / 10 ^ 10))")
    case True
    with Suc.prems show ?thesis by (simp add: newtonLoop_Suc del: newtonLoop.simps(2))
  next
    case small: False
    show ?thesis
    proof (cases "js_lt (js_abs (js_sub (newtonStep f f' r) r)) (Fin (1 / 10 ^ 7))")
      case True
      with small show ?thesis by (simp add: newtonLoop_Suc del: newtonLoop.simps(2))
    next
      case False
      with small Suc.prems have "exit (newtonLoop f f' k (newtonStep f f' r)) = Converged"
        by (simp add: newtonLoop_Suc del: newtonLoop.simps(2))
      from Suc.IH [OF this] obtain m where
        m: "updates (newtonLoop f f' k (newtonStep f f' r)) = Suc m"
           "js_lt (js_abs (js_sub ((newtonStep f f' ^^ Suc m) (newtonStep f f' r))
                                  ((newtonStep f f' ^^ m) (newtonStep f f' r))))
                  (Fin (1 / 10 ^ 7))"
        by blast
      have "updates (newtonLoop f f' (Suc k) r) = Suc (Suc m)"
        using small False m(1) by (simp add: newtonLoop_Suc del: newtonLoop.simps(2))
      moreover have "js_lt (js_abs (js_sub ((newtonStep f f' ^^ Suc (Suc m)) r)
                                  ((newtonStep f f' ^^ Suc m) r))) (Fin (1 / 10 ^ 7))"
        using m(2) by (simp only: funpow_swap1 [symmetric] funpow.simps o_apply) 
      ultimately show ?thesis by blast
    qed
  qed
qed

lemma newtonLoop_guard:
  "i < updates (newtonLoop f f' k r) \<Longrightarrow>
     \<not> js_lt (js_abs (f' ((newtonStep f f' ^^ i) r))) (Fin (1 / 10 ^ 10))"
proof (induction k arbitrary: r i)
  case 0
  then show ?case by simp
next
  case (Suc k)
  show ?case
  proof (cases i)
    case 0
    with Suc.prems show ?thesis
      by (simp add: newtonLoop_Suc del: newtonLoop.simps(2) split: if_splits)
  next
    case (Suc j)
    with Suc.prems have "j < updates (newtonLoop f f' k (newtonStep f f' r))"
      by (simp add: newtonLoop_Suc del: newtonLoop.simps(2) split: if_splits)
    from Suc.IH [OF this] Suc show ?thesis
      by (simp add: funpow_swap1)
  qed
qed

lemma length_buildFlows: "length (buildFlows now cfs cv) = length cfs + 1"
  by (simp add: buildFlows_def)

lemma oneInvestment_not_empty [simp]: "oneInvestment \<noteq> []"
  by (simp add: oneInvestment_def)

lemma xirr_no_flows: "xirrRun pow_upto2 1735624800000 [] (Fin 110000) = \<lparr>result = Fin 0, updates = 0, exit = NotStarted\<rparr>"
  by (simp add: xirrRun_def)

lemma flows_same_day: "buildFlows 1704067200000 oneInvestment (Fin 110000) =
   [\<lparr>date = 1704067200000, amount = Fin (- 100000)\<rparr>, \<lparr>date = 1704067200000, amount = Fin 110000\<rparr>]"
  by (simp add: buildFlows_def oneInvestment_def signedFlow_def)

lemma xirr_same_day: "xirrRun pow_upto2 1704067200000 oneInvestment (Fin 110000) = \<lparr>result = Fin 10, updates = 0, exit = DerivativeTooSmall\<rparr>"
  by (simp add: xirrRun_def flows_same_day length_buildFlows npv_def npvDerivative_def yearsSince_def pow_upto2_def eval_nat_numeral)

lemma flows_one_year: "buildFlows 1735624800000 oneInvestment (Fin 110000) =
   [\<lparr>date = 1704067200000, amount = Fin (- 100000)\<rparr>, \<lparr>date = 1735624800000, amount = Fin 110000\<rparr>]"
  by (simp add: buildFlows_def oneInvestment_def signedFlow_def)

lemma xirr_one_year: "xirrRun pow_upto2 1735624800000 oneInvestment (Fin 110000) = \<lparr>result = Fin 10, updates = 1, exit = Converged\<rparr>"
  by (simp add: xirrRun_def flows_one_year length_buildFlows npv_def npvDerivative_def yearsSince_def pow_upto2_def newtonLoop_Suc numeral_eq_Suc newtonStep_def del: newtonLoop.simps(2))

lemma flows_nan_value: "buildFlows 1735624800000 oneInvestment NaN =
   [\<lparr>date = 1704067200000, amount = Fin (- 100000)\<rparr>, \<lparr>date = 1735624800000, amount = NaN\<rparr>]"
  by (simp add: buildFlows_def oneInvestment_def signedFlow_def)

lemma newtonLoop_NaN: "f' NaN = NaN \<Longrightarrow> f NaN = NaN \<Longrightarrow> newtonLoop f f' k NaN = \<lparr>result = NaN, updates = k, exit = CapReached\<rparr>"
  by (induction k) (simp_all add: newtonLoop_Suc newtonStep_def del: newtonLoop.simps(2))

lemma xirr_nan_value: "xirrRun pow_upto2 1735624800000 oneInvestment NaN = \<lparr>result = NaN, updates = 100, exit = CapReached\<rparr>"
proof -
  let ?fl = "buildFlows 1735624800000 oneInvestment NaN"
  let ?f = "npv pow_upto2 ?fl 1704067200000"
  let ?f' = "npvDerivative pow_upto2 ?fl 1704067200000"
  have a: "?f r = NaN" for r
    by (simp add: flows_nan_value npv_def)
  have b: "?f' r = NaN" for r
    by (simp add: flows_nan_value npvDerivative_def yearsSince_def)
  have l: "newtonLoop ?f ?f' k NaN = \<lparr>result = NaN, updates = k, exit = CapReached\<rparr>" for k
    by (rule newtonLoop_NaN [of ?f' ?f, OF b a])
  have s: "newtonLoop ?f ?f' (Suc k) (Fin 0.1) = \<lparr>result = NaN, updates = Suc k, exit = CapReached\<rparr>" for k
    by (simp add: newtonLoop_Suc newtonStep_def a b l del: newtonLoop.simps(2))
  have h: "date (hd ?fl) = 1704067200000" by (simp add: flows_nan_value)
  have "newtonLoop ?f ?f' 100 (Fin 0.1) = \<lparr>result = NaN, updates = 100, exit = CapReached\<rparr>"
    using s [of 99] by simp
  then show ?thesis
    by (simp add: xirrRun_def length_buildFlows h Let_def del: newtonLoop.simps(2))
qed

text \<open>
  C5: \<open>calculateXIRR\<close> returns for every list of cash flows, every current value and
  every behaviour of \<open>Math.pow\<close>, after at most 100 Newton-Raphson updates. With
  fewer than two flows in all (no cash flow beside the synthetic one) it returns 0 before the
  loop. Otherwise the result is 100 times the estimate reached after the updates made; no
  update divides by a derivative whose magnitude is below \<open>1e-10\<close>; the loop is left early
  at such a derivative, or when two successive estimates differ by less than \<open>1e-7\<close>; and
  when neither happens it ends after exactly 100 updates with the last estimate.
\<close>

theorem calculateXIRR_terminates:
  "(let run = xirrRun pow now cfs cv;
        flows = buildFlows now cfs cv;
        f = npv pow flows (date (hd flows));
        f' = npvDerivative pow flows (date (hd flows));
        est = (\<lambda>i. (newtonStep f f' ^^ i) (Fin 0.1))
    in calculateXIRR pow now cfs cv = result run
     \<and> updates run \<le> 100
     \<and> length flows = length cfs + 1
     \<and> (length flows < 2 \<longrightarrow> run = \<lparr>result = Fin 0, updates = 0, exit = NotStarted\<rparr>)
     \<and> (\<not> length flows < 2 \<longrightarrow>
          result run = js_mul (est (updates run)) (Fin 100)
        \<and> exit run \<noteq> NotStarted
        \<and> (\<forall>i<updates run. \<not> js_lt (js_abs (f' (est i))) (Fin (1 / 10 ^ 10)))
        \<and> (exit run = DerivativeTooSmall \<longrightarrow>
              js_lt (js_abs (f' (est (updates run)))) (Fin (1 / 10 ^ 10)))
        \<and> (exit run = Converged \<longrightarrow>
              (\<exists>m. updates run = Suc m \<and>
                   js_lt (js_abs (js_sub (est (Suc m)) (est m))) (Fin (1 / 10 ^ 7))))
        \<and> (exit run = CapReached \<longrightarrow> updates run = 100)))"
proof (cases "cfs = []")
  case True
  then show ?thesis
    by (simp add: Let_def xirrRun_def calculateXIRR_def length_buildFlows)
next
  case False
  let ?flows = "buildFlows now cfs cv"
  let ?f = "npv pow ?flows (date (hd ?flows))"
  let ?f' = "npvDerivative pow ?flows (date (hd ?flows))"
  have len: "\<not> length ?flows < 2" using False by (simp add: length_buildFlows)
  have run: "xirrRun pow now cfs cv = newtonLoop ?f ?f' 100 (Fin 0.1)"
    using False len by (simp add: xirrRun_def Let_def)
  show ?thesis
    unfolding Let_def run calculateXIRR_def
    using len newtonLoop_guard [of _ ?f ?f' 100 "Fin 0.1"]
    by (intro conjI impI allI refl newtonLoop_updates_le length_buildFlows newtonLoop_result
          newtonLoop_started newtonLoop_small newtonLoop_converged newtonLoop_cap) auto
qed

theorem calculateXIRR_terminates_witness:
  "xirrRun pow_upto2 1735624800000 [] (Fin 110000) =
     \<lparr>result = Fin 0, updates = 0, exit = NotStarted\<rparr>
   \<and> exit (xirrRun pow_upto2 1704067200000 oneInvestment (Fin 110000)) = DerivativeTooSmall
   \<and> js_lt (js_abs (npvDerivative pow_upto2
              (buildFlows 1704067200000 oneInvestment (Fin 110000)) 1704067200000 (Fin 0.1)))
           (Fin (1 / 10 ^ 10))
   \<and> exit (xirrRun pow_upto2 1735624800000 oneInvestment (Fin 110000)) = Converged
   \<and> (\<exists>m. updates (xirrRun pow_upto2 1735624800000 oneInvestment (Fin 110000)) = Suc m)
   \<and> calculateXIRR pow_upto2 1735624800000 oneInvestment (Fin 110000) = Fin 10
   \<and> exit (xirrRun pow_upto2 1735624800000 oneInvestment NaN) = CapReached
   \<and> updates (xirrRun pow_upto2 1735624800000 oneInvestment NaN) = 100"
proof -
  have la: "length (buildFlows 1735624800000 [] (Fin 110000)) < 2"
    by (simp add: length_buildFlows)
  from calculateXIRR_terminates [of pow_upto2 1735624800000 "[]" "Fin 110000"] la
  have a: "xirrRun pow_upto2 1735624800000 [] (Fin 110000) =
     \<lparr>result = Fin 0, updates = 0, exit = NotStarted\<rparr>"
    unfolding Let_def by blast
  have lb: "\<not> length (buildFlows 1704067200000 oneInvestment (Fin 110000)) < 2"
    by (simp add: length_buildFlows oneInvestment_def)
  have eb: "exit (xirrRun pow_upto2 1704067200000 oneInvestment (Fin 110000)) = DerivativeTooSmall"
    by (simp add: xirr_same_day)
  from calculateXIRR_terminates [of pow_upto2 1704067200000 oneInvestment "Fin 110000"] lb eb
  have "js_lt (js_abs (npvDerivative pow_upto2
          (buildFlows 1704067200000 oneInvestment (Fin 110000))
          (date (hd (buildFlows 1704067200000 oneInvestment (Fin 110000))))
          ((newtonStep
              (npv pow_upto2 (buildFlows 1704067200000 oneInvestment (Fin 110000))
                 (date (hd (buildFlows 1704067200000 oneInvestment (Fin 110000)))))
              (npvDerivative pow_upto2 (buildFlows 1704067200000 oneInvestment (Fin 110000))
                 (date (hd (buildFlows 1704067200000 oneInvestment (Fin 110000)))))
            ^^ updates (xirrRun pow_upto2 1704067200000 oneInvestment (Fin 110000)))
             (Fin 0.1)))) (Fin (1 / 10 ^ 10))"
    unfolding Let_def by blast
  then have b: "js_lt (js_abs (npvDerivative pow_upto2
              (buildFlows 1704067200000 oneInvestment (Fin 110000)) 1704067200000 (Fin 0.1)))
           (Fin (1 / 10 ^ 10))"
    by (simp add: xirr_same_day flows_same_day)
  have lc: "\<not> length (buildFlows 1735624800000 oneInvestment (Fin 110000)) < 2"
    by (simp add: length_buildFlows oneInvestment_def)
  have ec: "exit (xirrRun pow_upto2 1735624800000 oneInvestment (Fin 110000)) = Converged"
    by (simp add: xirr_one_year)
  from calculateXIRR_terminates [of pow_upto2 1735624800000 oneInvestment "Fin 110000"] lc ec
  have c: "\<exists>m. updates (xirrRun pow_upto2 1735624800000 oneInvestment (Fin 110000)) = Suc m"
    unfolding Let_def by blast
  have c': "calculateXIRR pow_upto2 1735624800000 oneInvestment (Fin 110000) = Fin 10"
    by (simp add: calculateXIRR_def xirr_one_year)
  have ld: "\<not> length (buildFlows 1735624800000 oneInvestment NaN) < 2"
    by (simp add: length_buildFlows oneInvestment_def)
  have ed: "exit (xirrRun pow_upto2 1735624800000 oneInvestment NaN) = CapReached"
    by (simp add: xirr_nan_value)
  from calculateXIRR_terminates [of pow_upto2 1735624800000 oneInvestment NaN] ld ed
  have d: "updates (xirrRun pow_upto2 1735624800000 oneInvestment NaN) = 100"
    unfolding Let_def by blast
  show ?thesis
    using a eb b ec c c' ed d by (intro conjI)
qed

section \<open>Routes, settings and daily activity\<close>

lemma find_append_new:
  "find P xs = None \<Longrightarrow> P y \<Longrightarrow> find P (xs @ [y]) = Some y"
  by (induction xs) (auto split: if_splits)

lemma find_map_update:
  "find P xs = Some a \<Longrightarrow> (\<And>x. P (g x) = P x) \<Longrightarrow>
     find P (map (\<lambda>x. if P x then g x else x) xs) = Some (g a)"
  by (induction xs) (auto split: if_splits)

lemma incrementDailyBuy_counts:
  "dailyBuyCount d (incrementDailyBuy d db) = dailyBuyCount d db + 1
   \<and> dailySellCount d (incrementDailyBuy d db) = dailySellCount d db"
proof (cases "find (\<lambda>a. da_date a = d) (daily_activity_t db)")
  case None
  then show ?thesis
    by (simp add: dailyBuyCount_def dailySellCount_def getDailyActivity_def incrementDailyBuy_def
          find_append_new)
next
  case (Some a)
  from find_map_update [of "\<lambda>a. da_date a = d" "daily_activity_t db" a "\<lambda>a. a\<lparr>buy_count := buy_count a + 1\<rparr>", OF Some]
  show ?thesis using Some
    by (simp add: dailyBuyCount_def dailySellCount_def getDailyActivity_def incrementDailyBuy_def)
qed

lemma incrementDailySell_counts:
  "dailySellCount d (incrementDailySell d db) = dailySellCount d db + 1
   \<and> dailyBuyCount d (incrementDailySell d db) = dailyBuyCount d db"
proof (cases "find (\<lambda>a. da_date a = d) (daily_activity_t db)")
  case None
  then show ?thesis
    by (simp add: dailyBuyCount_def dailySellCount_def getDailyActivity_def incrementDailySell_def
          find_append_new)
next
  case (Some a)
  from find_map_update [of "\<lambda>a. da_date a = d" "daily_activity_t db" a "\<lambda>a. a\<lparr>sell_count := sell_count a + 1\<rparr>", OF Some]
  show ?thesis using Some
    by (simp add: dailyBuyCount_def dailySellCount_def getDailyActivity_def incrementDailySell_def)
qed

lemma addHolding_cases:
  "addHolding e d price qty db =
     (if price = NaN \<or> qty = NaN then Inl NotNullConstraintFailed
      else Inr (Suc (holdings_seq db),
            db\<lparr>holdings_t := holdings_t db @
                   [\<lparr>row_id = Suc (holdings_seq db), row_etf_id = e, buy_date = d,
                     buy_price = price, row_quantity = qty\<rparr>],
               holdings_seq := Suc (holdings_seq db)\<rparr>))"
  by (simp add: addHolding_def Let_def)

lemma addTrade_cases:
  "addTrade g e bd sd bp sp q db =
     (if NaN \<in> set [bp, sp, q, tradeProfit bp sp q, tradeProfitPercent bp sp,
                     tradeHoldingDays g bd sd]
      then Inl NotNullConstraintFailed
      else Inr (Suc (trades_seq db),
            db\<lparr>trades_t := trades_t db @
                   [\<lparr>trow_id = Suc (trades_seq db), trow_etf_id = e, trow_buy_date = bd,
                     sell_date = sd, trow_buy_price = bp, sell_price = sp,
                     trow_quantity = q, trow_profit = tradeProfit bp sp q,
                     profit_percent = tradeProfitPercent bp sp,
                     holding_days = tradeHoldingDays g bd sd\<rparr>],
               trades_seq := Suc (trades_seq db)\<rparr>))"
  by (simp only: addTrade_def Let_def)

lemma increment_keeps_rows:
  "holdings_t (incrementDailyBuy d db) = holdings_t db"
  "trades_t (incrementDailySell d db) = trades_t db"
  by (simp_all add: incrementDailyBuy_def incrementDailySell_def split: option.splits)

lemma counts_after_rows:
  "dailyBuyCount d (db\<lparr>holdings_t := h, holdings_seq := n\<rparr>) = dailyBuyCount d db"
  "dailySellCount d (db\<lparr>holdings_t := h, holdings_seq := n\<rparr>) = dailySellCount d db"
  "dailyBuyCount d (db\<lparr>trades_t := t, trades_seq := n\<rparr>) = dailyBuyCount d db"
  "dailySellCount d (db\<lparr>trades_t := t, trades_seq := n\<rparr>) = dailySellCount d db"
  by (simp_all add: dailyBuyCount_def dailySellCount_def getDailyActivity_def)

lemma buyCount_value:
  "(case getDailyActivity d db of None \<Rightarrow> Fin 0
    | Some a \<Rightarrow> js_or (Fin (real_of_int (buy_count a))) (Fin 0)) = Fin (real_of_int (dailyBuyCount d db))"
  by (simp add: dailyBuyCount_def js_or_def split: option.splits)

lemma sellCount_value:
  "(case getDailyActivity d db of None \<Rightarrow> Fin 0
    | Some a \<Rightarrow> js_or (Fin (real_of_int (sell_count a))) (Fin 0)) = Fin (real_of_int (dailySellCount d db))"
  by (simp add: dailySellCount_def js_or_def split: option.splits)

lemma getSettings_limits:
  "\<exists>m. maxDailyBuys (getSettings db) = Some m \<and> js_truthy m"
  "\<exists>m. maxDailySells (getSettings db) = Some m \<and> js_truthy m"
  by (simp_all add: getSettings_def Let_def js_or_def)

text \<open>The three components of what the buy handler returns.\<close>

lemma holdings_POST_parts:
  "response (holdings_POST body db) =
     (case getETFBySymbol (hb_etfSymbol body) db of
        None \<Rightarrow> Failed ''ETF not found'' 404
      | Some etf \<Rightarrow>
          (case addHolding (etf_id etf) (hb_buyDate body) (hb_buyPrice body) (hb_quantity body) db of
             Inl err \<Rightarrow> Failed ''Failed to add holding'' 500
           | Inr r \<Rightarrow> Created (fst r)))"
  "db_after (holdings_POST body db) =
     (case getETFBySymbol (hb_etfSymbol body) db of
        None \<Rightarrow> db
      | Some etf \<Rightarrow>
          (case addHolding (etf_id etf) (hb_buyDate body) (hb_buyPrice body) (hb_quantity body) db of
             Inl err \<Rightarrow> db
           | Inr r \<Rightarrow> incrementDailyBuy (hb_buyDate body) (snd r)))"
  "warned (holdings_POST body db) =
     (case maxDailyBuys (getSettings db) of
        None \<Rightarrow> False
      | Some m \<Rightarrow> js_truthy m \<and> js_ge (Fin (real_of_int (dailyBuyCount (hb_buyDate body) db))) m)"
proof -
  let ?e = "getETFBySymbol (hb_etfSymbol body) db"
  show "response (holdings_POST body db) =
     (case ?e of
        None \<Rightarrow> Failed ''ETF not found'' 404
      | Some etf \<Rightarrow>
          (case addHolding (etf_id etf) (hb_buyDate body) (hb_buyPrice body) (hb_quantity body) db of
             Inl err \<Rightarrow> Failed ''Failed to add holding'' 500
           | Inr r \<Rightarrow> Created (fst r)))"
  proof (cases ?e)
    case None
    then show ?thesis by (simp add: holdings_POST_def Let_def)
  next
    case (Some etf)
    then show ?thesis
      by (cases "addHolding (etf_id etf) (hb_buyDate body) (hb_buyPrice body) (hb_quantity body) db")
         (simp_all add: holdings_POST_def Let_def split: prod.split)
  qed
  show "db_after (holdings_POST body db) =
     (case ?e of
        None \<Rightarrow> db
      | Some etf \<Rightarrow>
          (case addHolding (etf_id etf) (hb_buyDate body) (hb_buyPrice body) (hb_quantity body) db of
             Inl err \<Rightarrow> db
           | Inr r \<Rightarrow> incrementDailyBuy (hb_buyDate body) (snd r)))"
  proof (cases ?e)
    case None
    then show ?thesis by (simp add: holdings_POST_def Let_def)
  next
    case (Some etf)
    then show ?thesis
      by (cases "addHolding (etf_id etf) (hb_buyDate body) (hb_buyPrice body) (hb_quantity body) db")
         (simp_all add: holdings_POST_def Let_def split: prod.split)
  qed
  show "warned (holdings_POST body db) =
     (case maxDailyBuys (getSettings db) of
        None \<Rightarrow> False
      | Some m \<Rightarrow> js_truthy m \<and> js_ge (Fin (real_of_int (dailyBuyCount (hb_buyDate body) db))) m)"
  proof (cases ?e)
    case None
    then show ?thesis
      by (simp add: holdings_POST_def Let_def buyCount_value cong: option.case_cong)
  next
    case (Some etf)
    then show ?thesis
      by (cases "addHolding (etf_id etf) (hb_buyDate body) (hb_buyPrice body) (hb_quantity body) db")
         (simp_all add: holdings_POST_def Let_def buyCount_value split: prod.split
            cong: option.case_cong)
  qed
qed

text \<open>The three components of what the sell handler returns.\<close>

lemma trades_POST_parts:
  "response (trades_POST g body db) =
     (case getETFBySymbol (tb_etfSymbol body) db of
        None \<Rightarrow> Failed ''ETF not found'' 404
      | Some etf \<Rightarrow>
          (case addTrade g (etf_id etf) (tb_buyDate body) (tb_sellDate body) (tb_buyPrice body)
                  (tb_sellPrice body) (tb_quantity body) db of
             Inl err \<Rightarrow> Failed ''Failed to add trade'' 500
           | Inr r \<Rightarrow> Created (fst r)))"
  "db_after (trades_POST g body db) =
     (case getETFBySymbol (tb_etfSymbol body) db of
        None \<Rightarrow> db
      | Some etf \<Rightarrow>
          (case addTrade g (etf_id etf) (tb_buyDate body) (tb_sellDate body) (tb_buyPrice body)
                  (tb_sellPrice body) (tb_quantity body) db of
             Inl err \<Rightarrow> db
           | Inr r \<Rightarrow> incrementDailySell (tb_sellDate body) (snd r)))"
  "warned (trades_POST g body db) =
     (case maxDailySells (getSettings db) of
        None \<Rightarrow> False
      | Some m \<Rightarrow> js_truthy m \<and> js_ge (Fin (real_of_int (dailySellCount (tb_sellDate body) db))) m)"
proof -
  let ?e = "getETFBySymbol (tb_etfSymbol body) db"
  show "response (trades_POST g body db) =
     (case ?e of
        None \<Rightarrow> Failed ''ETF not found'' 404
      | Some etf \<Rightarrow>
          (case addTrade g (etf_id etf) (tb_buyDate body) (tb_sellDate body) (tb_buyPrice body)
                  (tb_sellPrice body) (tb_quantity body) db of
             Inl err \<Rightarrow> Failed ''Failed to add trade'' 500
           | Inr r \<Rightarrow> Created (fst r)))"
  proof (cases ?e)
    case None
    then show ?thesis by (simp add: trades_POST_def Let_def)
  next
    case (Some etf)
    then show ?thesis
      by (cases "addTrade g (etf_id etf) (tb_buyDate body) (tb_sellDate body) (tb_buyPrice body)
                  (tb_sellPrice body) (tb_quantity body) db")
         (simp_all add: trades_POST_def Let_def split: prod.split)
  qed
  show "db_after (trades_POST g body db) =
     (case ?e of
        None \<Rightarrow> db
      | Some etf \<Rightarrow>
          (case addTrade g (etf_id etf) (tb_buyDate body) (tb_sellDate body) (tb_buyPrice body)
                  (tb_sellPrice body) (tb_quantity body) db of
             Inl err \<Rightarrow> db
           | Inr r \<Rightarrow> incrementDailySell (tb_sellDate body) (snd r)))"
  proof (cases ?e)
    case None
    then show ?thesis by (simp add: trades_POST_def Let_def)
  next
    case (Some etf)
    then show ?thesis
      by (cases "addTrade g (etf_id etf) (tb_buyDate body) (tb_sellDate body) (tb_buyPrice body)
                  (tb_sellPrice body) (tb_quantity body) db")
         (simp_all add: trades_POST_def Let_def split: prod.split)
  qed
  show "warned (trades_POST g body db) =
     (case maxDailySells (getSettings db) of
        None \<Rightarrow> False
      | Some m \<Rightarrow> js_truthy m \<and> js_ge (Fin (real_of_int (dailySellCount (tb_sellDate body) db))) m)"
  proof (cases ?e)
    case None
    then show ?thesis
      by (simp add: trades_POST_def Let_def sellCount_value cong: option.case_cong)
  next
    case (Some etf)
    then show ?thesis
      by (cases "addTrade g (etf_id etf) (tb_buyDate body) (tb_sellDate body) (tb_buyPrice body)
                  (tb_sellPrice body) (tb_quantity body) db")
         (simp_all add: trades_POST_def Let_def sellCount_value split: prod.split
            cong: option.case_cong)
  qed
qed

lemma holdings_POST_independent:
  "response (holdings_POST body
      (db\<lparr>daily_activity_t := acts, daily_activity_seq := k, settings_t := sets\<rparr>))
     = response (holdings_POST body db)"
  "holdings_t (db_after (holdings_POST body
      (db\<lparr>daily_activity_t := acts, daily_activity_seq := k, settings_t := sets\<rparr>)))
     = holdings_t (db_after (holdings_POST body db))"
  by (simp_all add: holdings_POST_parts getETFBySymbol_def addHolding_cases
        increment_keeps_rows split: option.split)

lemma trades_POST_independent:
  "response (trades_POST g body
      (db\<lparr>daily_activity_t := acts, daily_activity_seq := k, settings_t := sets\<rparr>))
     = response (trades_POST g body db)"
  "trades_t (db_after (trades_POST g body
      (db\<lparr>daily_activity_t := acts, daily_activity_seq := k, settings_t := sets\<rparr>)))
     = trades_t (db_after (trades_POST g body db))"
  by (simp_all add: trades_POST_parts getETFBySymbol_def addTrade_cases
        increment_keeps_rows split: option.split del: set_simps)

lemma holdings_POST_found:
  assumes "getETFBySymbol (hb_etfSymbol body) db = Some etf"
    and "hb_buyPrice body \<noteq> NaN" and "hb_quantity body \<noteq> NaN"
  shows "response (holdings_POST body db) = Created (Suc (holdings_seq db))"
    and "db_after (holdings_POST body db) =
           incrementDailyBuy (hb_buyDate body)
             (db\<lparr>holdings_t := holdings_t db @
                   [\<lparr>row_id = Suc (holdings_seq db), row_etf_id = etf_id etf,
                     buy_date = hb_buyDate body, buy_price = hb_buyPrice body,
                     row_quantity = hb_quantity body\<rparr>],
                 holdings_seq := Suc (holdings_seq db)\<rparr>)"
  using assms by (simp_all add: holdings_POST_parts addHolding_cases)

lemma trades_POST_found:
  assumes "getETFBySymbol (tb_etfSymbol body) db = Some etf"
    and "NaN \<notin> set (tradeNumbers g body)"
  shows "response (trades_POST g body db) = Created (Suc (trades_seq db))"
    and "db_after (trades_POST g body db) =
           incrementDailySell (tb_sellDate body)
             (db\<lparr>trades_t := trades_t db @
                   [\<lparr>trow_id = Suc (trades_seq db), trow_etf_id = etf_id etf,
                     trow_buy_date = tb_buyDate body, sell_date = tb_sellDate body,
                     trow_buy_price = tb_buyPrice body, sell_price = tb_sellPrice body,
                     trow_quantity = tb_quantity body,
                     trow_profit = tradeProfit (tb_buyPrice body) (tb_sellPrice body) (tb_quantity body),
                     profit_percent = tradeProfitPercent (tb_buyPrice body) (tb_sellPrice body),
                     holding_days = tradeHoldingDays g (tb_buyDate body) (tb_sellDate body)\<rparr>],
                 trades_seq := Suc (trades_seq db)\<rparr>)"
  using assms(1) assms(2) [unfolded tradeNumbers_def]
  by (simp_all add: trades_POST_parts addTrade_cases del: set_simps)

lemma holdings_POST_warned:
  "maxDailyBuys (getSettings db) = Some m \<Longrightarrow> warned (holdings_POST body db) =
     (js_truthy m \<and> js_ge (Fin (real_of_int (dailyBuyCount (hb_buyDate body) db))) m)"
  by (simp add: holdings_POST_parts)

lemma trades_POST_warned:
  "maxDailySells (getSettings db) = Some m \<Longrightarrow> warned (trades_POST g body db) =
     (js_truthy m \<and> js_ge (Fin (real_of_int (dailySellCount (tb_sellDate body) db))) m)"
  by (simp add: trades_POST_parts)

lemma parseFloat_one: "parseFloat ''1'' = Fin 1"
  by (simp add: parseFloat_def splitSign_def isWhiteSpace_def isDigit_def digitsValue_def exponentPart_def Let_def)

lemma parseFloat_zero: "parseFloat ''0'' = Fin 0"
  by (simp add: parseFloat_def splitSign_def isWhiteSpace_def isDigit_def digitsValue_def exponentPart_def Let_def)

lemma parseFloat_prefix: "parseFloat '' -2.5e1x'' = Fin (-25)"
  by (simp add: parseFloat_def splitSign_def isWhiteSpace_def isDigit_def digitsValue_def exponentPart_def Let_def)

lemma parseFloat_undefined: "parseFloat ''undefined'' = NaN"
  by (simp add: parseFloat_def splitSign_def isWhiteSpace_def isDigit_def digitsValue_def exponentPart_def Let_def)

lemma parseFloat_neg_infinity: "parseFloat ''-Infinity'' = NInf"
  by (simp add: parseFloat_def splitSign_def isWhiteSpace_def isDigit_def digitsValue_def exponentPart_def Let_def)

lemma getSettings_exampleDb: "getSettings exampleDb = \<lparr>profitTargetPercent = Fin 6, minProfitAmount = Fin 500,
      perTransactionAmount = Fin 10000, totalCapital = Fin 500000,
      minVolume = Some (Fin 15000), averagingThreshold = Some (Fin 2.5), maxDailyBuys = Some (Fin 1),
      maxDailySells = Some (Fin 1)\<rparr>"
  by (simp add: getSettings_def exampleDb_def settingsObject_def parseSetting_def parseFloat_one parseFloat_zero parseFloat_undefined js_or_def)

text \<open>
  C3: the daily caps never make a buy or a sell fail. Whether the request is answered with
  success, and which rows the holdings or trades table holds afterwards, is the same for
  every content of the daily counters and every stored cap; the cap is compared with the
  count of the date only to decide whether the warning is written. A request whose ETF
  exists and whose numbers can be stored (none of them \<open>NaN\<close>) is answered with the new id,
  its row is appended to the table, and the count of its date goes up by exactly one (the
  other count of that date is unchanged), whatever the count was before.
\<close>

theorem daily_limits_never_block:
  "response (holdings_POST hb
      (db\<lparr>daily_activity_t := acts, daily_activity_seq := k, settings_t := sets\<rparr>))
     = response (holdings_POST hb db)
   \<and> holdings_t (db_after (holdings_POST hb
        (db\<lparr>daily_activity_t := acts, daily_activity_seq := k, settings_t := sets\<rparr>)))
       = holdings_t (db_after (holdings_POST hb db))
   \<and> response (trades_POST getTime tb
        (db\<lparr>daily_activity_t := acts, daily_activity_seq := k, settings_t := sets\<rparr>))
       = response (trades_POST getTime tb db)
   \<and> trades_t (db_after (trades_POST getTime tb
        (db\<lparr>daily_activity_t := acts, daily_activity_seq := k, settings_t := sets\<rparr>)))
       = trades_t (db_after (trades_POST getTime tb db))
   \<and> (\<exists>m. maxDailyBuys (getSettings db) = Some m \<and> js_truthy m
         \<and> warned (holdings_POST hb db)
             = js_ge (Fin (real_of_int (dailyBuyCount (hb_buyDate hb) db))) m)
   \<and> (\<exists>m. maxDailySells (getSettings db) = Some m \<and> js_truthy m
         \<and> warned (trades_POST getTime tb db)
             = js_ge (Fin (real_of_int (dailySellCount (tb_sellDate tb) db))) m)
   \<and> (getETFBySymbol (hb_etfSymbol hb) db = Some e1
        \<and> hb_buyPrice hb \<noteq> NaN \<and> hb_quantity hb \<noteq> NaN \<longrightarrow>
         response (holdings_POST hb db) = Created (Suc (holdings_seq db))
       \<and> holdings_t (db_after (holdings_POST hb db)) =
           holdings_t db @
             [\<lparr>row_id = Suc (holdings_seq db), row_etf_id = etf_id e1,
               buy_date = hb_buyDate hb, buy_price = hb_buyPrice hb,
               row_quantity = hb_quantity hb\<rparr>]
       \<and> dailyBuyCount (hb_buyDate hb) (db_after (holdings_POST hb db))
           = dailyBuyCount (hb_buyDate hb) db + 1
       \<and> dailySellCount (hb_buyDate hb) (db_after (holdings_POST hb db))
           = dailySellCount (hb_buyDate hb) db)
   \<and> (getETFBySymbol (tb_etfSymbol tb) db = Some e2
        \<and> NaN \<notin> set (tradeNumbers getTime tb) \<longrightarrow>
         response (trades_POST getTime tb db) = Created (Suc (trades_seq db))
       \<and> trades_t (db_after (trades_POST getTime tb db)) =
           trades_t db @
             [\<lparr>trow_id = Suc (trades_seq db), trow_etf_id = etf_id e2,
               trow_buy_date = tb_buyDate tb, sell_date = tb_sellDate tb,
               trow_buy_price = tb_buyPrice tb, sell_price = tb_sellPrice tb,
               trow_quantity = tb_quantity tb,
               trow_profit = tradeProfit (tb_buyPrice tb) (tb_sellPrice tb) (tb_quantity tb),
               profit_percent = tradeProfitPercent (tb_buyPrice tb) (tb_sellPrice tb),
               holding_days = tradeHoldingDays getTime (tb_buyDate tb) (tb_sellDate tb)\<rparr>]
       \<and> dailySellCount (tb_sellDate tb) (db_after (trades_POST getTime tb db))
           = dailySellCount (tb_sellDate tb) db + 1
       \<and> dailyBuyCount (tb_sellDate tb) (db_after (trades_POST getTime tb db))
           = dailyBuyCount (tb_sellDate tb) db)"
proof -
  from getSettings_limits(1) [of db] obtain m where
    m: "maxDailyBuys (getSettings db) = Some m" "js_truthy m"
    by blast
  have wb: "\<exists>m. maxDailyBuys (getSettings db) = Some m \<and> js_truthy m
          \<and> warned (holdings_POST hb db)
              = js_ge (Fin (real_of_int (dailyBuyCount (hb_buyDate hb) db))) m"
    using m holdings_POST_warned [OF m(1), of hb] by simp
  from getSettings_limits(2) [of db] obtain j where
    j: "maxDailySells (getSettings db) = Some j" "js_truthy j"
    by blast
  have ws: "\<exists>m. maxDailySells (getSettings db) = Some m \<and> js_truthy m
          \<and> warned (trades_POST getTime tb db)
              = js_ge (Fin (real_of_int (dailySellCount (tb_sellDate tb) db))) m"
    using j trades_POST_warned [OF j(1), of getTime tb] by simp
  have buy: "getETFBySymbol (hb_etfSymbol hb) db = Some e1
        \<and> hb_buyPrice hb \<noteq> NaN \<and> hb_quantity hb \<noteq> NaN \<longrightarrow>
         response (holdings_POST hb db) = Created (Suc (holdings_seq db))
       \<and> holdings_t (db_after (holdings_POST hb db)) =
           holdings_t db @
             [\<lparr>row_id = Suc (holdings_seq db), row_etf_id = etf_id e1,
               buy_date = hb_buyDate hb, buy_price = hb_buyPrice hb,
               row_quantity = hb_quantity hb\<rparr>]
       \<and> dailyBuyCount (hb_buyDate hb) (db_after (holdings_POST hb db))
           = dailyBuyCount (hb_buyDate hb) db + 1
       \<and> dailySellCount (hb_buyDate hb) (db_after (holdings_POST hb db))
           = dailySellCount (hb_buyDate hb) db"
  proof (intro impI, elim conjE)
    assume e: "getETFBySymbol (hb_etfSymbol hb) db = Some e1"
      and p: "hb_buyPrice hb \<noteq> NaN" and q: "hb_quantity hb \<noteq> NaN"
    note hp = holdings_POST_found [OF e p q]
    have r: "response (holdings_POST hb db) = Created (Suc (holdings_seq db))"
      by (rule hp(1))
    have t: "holdings_t (db_after (holdings_POST hb db)) =
           holdings_t db @
             [\<lparr>row_id = Suc (holdings_seq db), row_etf_id = etf_id e1,
               buy_date = hb_buyDate hb, buy_price = hb_buyPrice hb,
               row_quantity = hb_quantity hb\<rparr>]"
      unfolding hp(2) by (simp add: increment_keeps_rows)
    have c: "dailyBuyCount (hb_buyDate hb) (db_after (holdings_POST hb db))
           = dailyBuyCount (hb_buyDate hb) db + 1
       \<and> dailySellCount (hb_buyDate hb) (db_after (holdings_POST hb db))
           = dailySellCount (hb_buyDate hb) db"
      unfolding hp(2) by (simp only: incrementDailyBuy_counts counts_after_rows)
    show "response (holdings_POST hb db) = Created (Suc (holdings_seq db))
       \<and> holdings_t (db_after (holdings_POST hb db)) =
           holdings_t db @
             [\<lparr>row_id = Suc (holdings_seq db), row_etf_id = etf_id e1,
               buy_date = hb_buyDate hb, buy_price = hb_buyPrice hb,
               row_quantity = hb_quantity hb\<rparr>]
       \<and> dailyBuyCount (hb_buyDate hb) (db_after (holdings_POST hb db))
           = dailyBuyCount (hb_buyDate hb) db + 1
       \<and> dailySellCount (hb_buyDate hb) (db_after (holdings_POST hb db))
           = dailySellCount (hb_buyDate hb) db"
      by (intro conjI r t c [THEN conjunct1] c [THEN conjunct2])
  qed
  have sell: "getETFBySymbol (tb_etfSymbol tb) db = Some e2
        \<and> NaN \<notin> set (tradeNumbers getTime tb) \<longrightarrow>
         response (trades_POST getTime tb db) = Created (Suc (trades_seq db))
       \<and> trades_t (db_after (trades_POST getTime tb db)) =
           trades_t db @
             [\<lparr>trow_id = Suc (trades_seq db), trow_etf_id = etf_id e2,
               trow_buy_date = tb_buyDate tb, sell_date = tb_sellDate tb,
               trow_buy_price = tb_buyPrice tb, sell_price = tb_sellPrice tb,
               trow_quantity = tb_quantity tb,
               trow_profit = tradeProfit (tb_buyPrice tb) (tb_sellPrice tb) (tb_quantity tb),
               profit_percent = tradeProfitPercent (tb_buyPrice tb) (tb_sellPrice tb),
               holding_days = tradeHoldingDays getTime (tb_buyDate tb) (tb_sellDate tb)\<rparr>]
       \<and> dailySellCount (tb_sellDate tb) (db_after (trades_POST getTime tb db))
           = dailySellCount (tb_sellDate tb) db + 1
       \<and> dailyBuyCount (tb_sellDate tb) (db_after (trades_POST getTime tb db))
           = dailyBuyCount (tb_sellDate tb) db"
  proof (intro impI, elim conjE)
    assume e: "getETFBySymbol (tb_etfSymbol tb) db = Some e2"
      and n: "NaN \<notin> set (tradeNumbers getTime tb)"
    note tp = trades_POST_found [OF e n]
    have r: "response (trades_POST getTime tb db) = Created (Suc (trades_seq db))"
      by (rule tp(1))
    have t: "trades_t (db_after (trades_POST getTime tb db)) =
           trades_t db @
             [\<lparr>trow_id = Suc (trades_seq db), trow_etf_id = etf_id e2,
               trow_buy_date = tb_buyDate tb, sell_date = tb_sellDate tb,
               trow_buy_price = tb_buyPrice tb, sell_price = tb_sellPrice tb,
               trow_quantity = tb_quantity tb,
               trow_profit = tradeProfit (tb_buyPrice tb) (tb_sellPrice tb) (tb_quantity tb),
               profit_percent = tradeProfitPercent (tb_buyPrice tb) (tb_sellPrice tb),
               holding_days = tradeHoldingDays getTime (tb_buyDate tb) (tb_sellDate tb)\<rparr>]"
      unfolding tp(2) by (simp add: increment_keeps_rows)
    have c: "dailySellCount (tb_sellDate tb) (db_after (trades_POST getTime tb db))
           = dailySellCount (tb_sellDate tb) db + 1
       \<and> dailyBuyCount (tb_sellDate tb) (db_after (trades_POST getTime tb db))
           = dailyBuyCount (tb_sellDate tb) db"
      unfolding tp(2) by (simp only: incrementDailySell_counts counts_after_rows)
    show "response (trades_POST getTime tb db) = Created (Suc (trades_seq db))
       \<and> trades_t (db_after (trades_POST getTime tb db)) =
           trades_t db @
             [\<lparr>trow_id = Suc (trades_seq db), trow_etf_id = etf_id e2,
               trow_buy_date = tb_buyDate tb, sell_date = tb_sellDate tb,
               trow_buy_price = tb_buyPrice tb, sell_price = tb_sellPrice tb,
               trow_quantity = tb_quantity tb,
               trow_profit = tradeProfit (tb_buyPrice tb) (tb_sellPrice tb) (tb_quantity tb),
               profit_percent = tradeProfitPercent (tb_buyPrice tb) (tb_sellPrice tb),
               holding_days = tradeHoldingDays getTime (tb_buyDate tb) (tb_sellDate tb)\<rparr>]
       \<and> dailySellCount (tb_sellDate tb) (db_after (trades_POST getTime tb db))
           = dailySellCount (tb_sellDate tb) db + 1
       \<and> dailyBuyCount (tb_sellDate tb) (db_after (trades_POST getTime tb db))
           = dailyBuyCount (tb_sellDate tb) db"
      by (intro conjI r t c [THEN conjunct1] c [THEN conjunct2])
  qed
  show ?thesis
    by (intro conjI holdings_POST_independent trades_POST_independent wb ws buy sell)
qed

lemma exampleDb_counts:
  "dailyBuyCount ''2024-01-03'' exampleDb = 2" "dailySellCount ''2024-01-03'' exampleDb = 1"
  by (simp_all add: dailyBuyCount_def dailySellCount_def getDailyActivity_def exampleDb_def)

lemma exampleDb_etf:
  "getETFBySymbol ''GOLDBEES'' exampleDb =
     Some \<lparr>etf_id = 1, symbol = ''GOLDBEES'', yahooSymbol = ''GOLDBEES.NS'',
           name = ''Gold BeES'', category = ''Gold''\<rparr>"
  by (simp add: getETFBySymbol_def exampleDb_def)

lemma exampleSell_numbers:
  "tradeNumbers exampleTime exampleSell = [Fin 50, Fin 53, Fin 10, Fin 30, Fin 6, Fin 2]"
  by (simp add: tradeNumbers_def exampleSell_def exampleTime_def tradeProfit_def
        tradeProfitPercent_def tradeHoldingDays_def)

theorem daily_limits_never_block_witness:
  "getETFBySymbol (hb_etfSymbol exampleBuy) exampleDb \<noteq> None
   \<and> hb_buyPrice exampleBuy \<noteq> NaN \<and> hb_quantity exampleBuy \<noteq> NaN
   \<and> getETFBySymbol (tb_etfSymbol exampleSell) exampleDb \<noteq> None
   \<and> NaN \<notin> set (tradeNumbers exampleTime exampleSell)
   \<and> maxDailyBuys (getSettings exampleDb) = Some (Fin 1)
   \<and> dailyBuyCount ''2024-01-03'' exampleDb = 2
   \<and> warned (holdings_POST exampleBuy exampleDb)
   \<and> response (holdings_POST exampleBuy exampleDb) = Created 2
   \<and> length (holdings_t (db_after (holdings_POST exampleBuy exampleDb))) = 2
   \<and> dailyBuyCount ''2024-01-03'' (db_after (holdings_POST exampleBuy exampleDb)) = 3
   \<and> warned (trades_POST exampleTime exampleSell exampleDb)
   \<and> response (trades_POST exampleTime exampleSell exampleDb) = Created 1
   \<and> map holding_days (trades_t (db_after (trades_POST exampleTime exampleSell exampleDb)))
       = [Fin 2]
   \<and> dailySellCount ''2024-01-03'' (db_after (trades_POST exampleTime exampleSell exampleDb)) = 2"
proof -
  let ?etf = "\<lparr>etf_id = 1, symbol = ''GOLDBEES'', yahooSymbol = ''GOLDBEES.NS'',
           name = ''Gold BeES'', category = ''Gold''\<rparr>"
  have e1: "getETFBySymbol (hb_etfSymbol exampleBuy) exampleDb = Some ?etf"
    by (simp add: exampleBuy_def exampleDb_etf)
  have e2: "getETFBySymbol (tb_etfSymbol exampleSell) exampleDb = Some ?etf"
    by (simp add: exampleSell_def exampleDb_etf)
  have n1: "hb_buyPrice exampleBuy \<noteq> NaN" "hb_quantity exampleBuy \<noteq> NaN"
    by (simp_all add: exampleBuy_def)
  have n2: "NaN \<notin> set (tradeNumbers exampleTime exampleSell)"
    by (simp add: exampleSell_numbers)
  have d: "hb_buyDate exampleBuy = ''2024-01-03''" "tb_sellDate exampleSell = ''2024-01-03''"
    by (simp_all add: exampleBuy_def exampleSell_def)
  have s: "holdings_seq exampleDb = 1" "trades_seq exampleDb = 0"
      "length (holdings_t exampleDb) = 1" "trades_t exampleDb = []"
    by (simp_all add: exampleDb_def)
  have mb: "maxDailyBuys (getSettings exampleDb) = Some (Fin 1)"
    and ms: "maxDailySells (getSettings exampleDb) = Some (Fin 1)"
    by (simp_all add: getSettings_exampleDb)
  note inst = daily_limits_never_block
    [where hb = exampleBuy and db = exampleDb and acts = "[]" and k = 0 and sets = "[]"
       and getTime = exampleTime and tb = exampleSell and ?e1.0 = ?etf and ?e2.0 = ?etf]
  note c5 = inst [THEN conjunct2, THEN conjunct2, THEN conjunct2, THEN conjunct2]
  note c6 = c5 [THEN conjunct2]
  note c7 = c6 [THEN conjunct2]
  note buy = c7 [THEN conjunct1, THEN mp, OF conjI [OF e1 conjI [OF n1(1) n1(2)]]]
  note sell = c7 [THEN conjunct2, THEN mp, OF conjI [OF e2 n2]]
  from c5 [THEN conjunct1] obtain m where
    m: "maxDailyBuys (getSettings exampleDb) = Some m"
       "warned (holdings_POST exampleBuy exampleDb)
          = js_ge (Fin (real_of_int (dailyBuyCount (hb_buyDate exampleBuy) exampleDb))) m"
    by blast
  have "m = Fin 1" using m(1) mb by simp
  then have wb: "warned (holdings_POST exampleBuy exampleDb)"
    using m(2) by (simp add: d exampleDb_counts)
  from c6 [THEN conjunct1] obtain j where
    j: "maxDailySells (getSettings exampleDb) = Some j"
       "warned (trades_POST exampleTime exampleSell exampleDb)
          = js_ge (Fin (real_of_int (dailySellCount (tb_sellDate exampleSell) exampleDb))) j"
    by blast
  have "j = Fin 1" using j(1) ms by simp
  then have ws: "warned (trades_POST exampleTime exampleSell exampleDb)"
    using j(2) by (simp add: d exampleDb_counts)
  have days: "tradeHoldingDays exampleTime (tb_buyDate exampleSell) (tb_sellDate exampleSell) = Fin 2"
    using exampleSell_numbers by (simp add: tradeNumbers_def)
  have b1: "response (holdings_POST exampleBuy exampleDb) = Created 2"
    using buy [THEN conjunct1] by (simp add: s)
  have b2: "length (holdings_t (db_after (holdings_POST exampleBuy exampleDb))) = 2"
    using buy [THEN conjunct2, THEN conjunct1] by (simp add: s)
  have b3: "dailyBuyCount ''2024-01-03'' (db_after (holdings_POST exampleBuy exampleDb)) = 3"
    using buy [THEN conjunct2, THEN conjunct2, THEN conjunct1] by (simp add: d exampleDb_counts)
  have s1: "response (trades_POST exampleTime exampleSell exampleDb) = Created 1"
    using sell [THEN conjunct1] by (simp add: s)
  have s2: "map holding_days (trades_t (db_after (trades_POST exampleTime exampleSell exampleDb)))
       = [Fin 2]"
    using sell [THEN conjunct2, THEN conjunct1] by (simp add: s days)
  have s3: "dailySellCount ''2024-01-03'' (db_after (trades_POST exampleTime exampleSell exampleDb)) = 2"
    using sell [THEN conjunct2, THEN conjunct2, THEN conjunct1] by (simp add: d exampleDb_counts)
  have f1: "getETFBySymbol (hb_etfSymbol exampleBuy) exampleDb \<noteq> None" using e1 by simp
  have f2: "getETFBySymbol (tb_etfSymbol exampleSell) exampleDb \<noteq> None" using e2 by simp
  show ?thesis
    by (intro conjI f1 n1 f2 n2 mb exampleDb_counts(1) wb b1 b2 b3 ws s1 s2 s3)
qed

text \<open>
  C9 does not hold of the code: \<open>PUT\<close> passes the corrected purchase date to
  \<open>updateHolding\<close>, whose statement sets the price and the quantity only, so the stored
  purchase dates are the ones from before the request. The lot of 1 January 2024, corrected
  to price 55, quantity 12 and date 1 February 2024, keeps its date.
\<close>

theorem holdings_PUT_keeps_buy_date:
  "map buy_date (holdings_t (db_after (holdings_PUT body db))) = map buy_date (holdings_t db)
   \<and> holdings_t (db_after (holdings_PUT
        \<lparr>ub_id = 1, ub_buyPrice = Fin 55, ub_quantity = Fin 12, ub_buyDate = ''2024-02-01''\<rparr>
        exampleDb)) =
      [\<lparr>row_id = 1, row_etf_id = 1, buy_date = ''2024-01-01'', buy_price = Fin 55,
        row_quantity = Fin 12\<rparr>]"
  by (simp add: holdings_PUT_def updateHolding_def exampleDb_def comp_def)

lemma js_truthy_iff: "js_truthy x = (x \<noteq> Fin 0 \<and> x \<noteq> NaN)"
  by (cases x) simp_all

lemma js_or_default:
  "d \<noteq> 0 \<Longrightarrow> js_or p (Fin d) \<noteq> Fin 0 \<and> js_or p (Fin d) \<noteq> NaN
     \<and> (p = Fin 0 \<or> p = NaN \<longrightarrow> js_or p (Fin d) = Fin d)
     \<and> (p \<noteq> Fin 0 \<and> p \<noteq> NaN \<longrightarrow> js_or p (Fin d) = p)"
  by (cases p) (simp_all add: js_or_def)

lemma parseSetting_absent: "obj k = None \<Longrightarrow> parseSetting obj k = NaN"
  by (simp add: parseSetting_def parseFloat_undefined)

lemma settingEntries_getSettings:
  "settingEntries (getSettings db) =
     map (\<lambda>(k, d). (k, d, js_or (parseSetting (settingsObject (settings_t db)) k) (Fin d)))
       [(''profit_target_percent'', 6), (''min_profit_amount'', 500),
        (''per_transaction_amount'', 10000), (''total_capital'', 500000),
        (''min_volume'', 15000), (''averaging_threshold'', 2.5),
        (''max_daily_buys'', 1), (''max_daily_sells'', 1)]"
  by (simp add: settingEntries_def getSettings_def Let_def optNum_def)

text \<open>
  C10: every numeric setting returned by \<open>getSettings\<close> is neither 0 nor \<open>NaN\<close>. A key
  with no row parses to \<open>NaN\<close>; whenever the stored string parses to \<open>NaN\<close> or to 0 the
  field is the documented default, and otherwise it is the parsed number. A stored
  \<open>min_profit_amount\<close> of \<open>0\<close> is reported as 500 and a stored
  \<open>profit_target_percent\<close> of \<open>0\<close> as 6.
\<close>

theorem getSettings_never_zero:
  "(\<forall>(k, d, v) \<in> set (settingEntries (getSettings db)).
       v \<noteq> Fin 0 \<and> v \<noteq> NaN
     \<and> (let p = parseSetting (settingsObject (settings_t db)) k
        in (settingsObject (settings_t db) k = None \<longrightarrow> p = NaN)
         \<and> (p = Fin 0 \<or> p = NaN \<longrightarrow> v = Fin d)
         \<and> (p \<noteq> Fin 0 \<and> p \<noteq> NaN \<longrightarrow> v = p)))
   \<and> minVolume (getSettings db) \<noteq> None \<and> averagingThreshold (getSettings db) \<noteq> None
   \<and> maxDailyBuys (getSettings db) \<noteq> None \<and> maxDailySells (getSettings db) \<noteq> None
   \<and> parseFloat ''0'' = Fin 0
   \<and> settingsObject (settings_t exampleDb) ''min_profit_amount'' = Some ''0''
   \<and> settingsObject (settings_t exampleDb) ''profit_target_percent'' = Some ''0''
   \<and> minProfitAmount (getSettings exampleDb) = Fin 500
   \<and> profitTargetPercent (getSettings exampleDb) = Fin 6"
proof -
  have gen: "\<forall>(k, d, v) \<in> set (settingEntries (getSettings db)).
       v \<noteq> Fin 0 \<and> v \<noteq> NaN
     \<and> (let p = parseSetting (settingsObject (settings_t db)) k
        in (settingsObject (settings_t db) k = None \<longrightarrow> p = NaN)
         \<and> (p = Fin 0 \<or> p = NaN \<longrightarrow> v = Fin d)
         \<and> (p \<noteq> Fin 0 \<and> p \<noteq> NaN \<longrightarrow> v = p))"
    unfolding settingEntries_getSettings Let_def
    by (simp add: js_or_default parseSetting_absent)
  have some: "minVolume (getSettings db) \<noteq> None \<and> averagingThreshold (getSettings db) \<noteq> None
   \<and> maxDailyBuys (getSettings db) \<noteq> None \<and> maxDailySells (getSettings db) \<noteq> None"
    by (simp add: getSettings_def Let_def)
  have obj: "settingsObject (settings_t exampleDb) ''min_profit_amount'' = Some ''0''
     \<and> settingsObject (settings_t exampleDb) ''profit_target_percent'' = Some ''0''"
    by (simp add: settingsObject_def exampleDb_def)
  have ex: "minProfitAmount (getSettings exampleDb) = Fin 500
     \<and> profitTargetPercent (getSettings exampleDb) = Fin 6"
    by (simp add: getSettings_exampleDb)
  show ?thesis
    by (intro conjI gen some [THEN conjunct1] some [THEN conjunct2, THEN conjunct1]
          some [THEN conjunct2, THEN conjunct2, THEN conjunct1]
          some [THEN conjunct2, THEN conjunct2, THEN conjunct2]
          parseFloat_zero obj [THEN conjunct1] obj [THEN conjunct2] ex [THEN conjunct1] ex [THEN conjunct2])
qed

theorem getSettings_never_zero_witness:
  "(''min_profit_amount'', 500, minProfitAmount (getSettings exampleDb))
      \<in> set (settingEntries (getSettings exampleDb))
   \<and> parseSetting (settingsObject (settings_t exampleDb)) ''min_profit_amount'' = Fin 0
   \<and> minProfitAmount (getSettings exampleDb) = Fin 500
   \<and> minProfitAmount (getSettings exampleDb) \<noteq> Fin 0"
proof -
  have m: "(''min_profit_amount'', 500, minProfitAmount (getSettings exampleDb))
      \<in> set (settingEntries (getSettings exampleDb))"
    by (simp add: settingEntries_def)
  have p: "parseSetting (settingsObject (settings_t exampleDb)) ''min_profit_amount'' = Fin 0"
    by (simp add: parseSetting_def settingsObject_def exampleDb_def parseFloat_zero)
  from getSettings_never_zero [of exampleDb] have
    "\<forall>(k, d, v) \<in> set (settingEntries (getSettings exampleDb)).
       v \<noteq> Fin 0 \<and> v \<noteq> NaN
     \<and> (let p = parseSetting (settingsObject (settings_t exampleDb)) k
        in (settingsObject (settings_t exampleDb) k = None \<longrightarrow> p = NaN)
         \<and> (p = Fin 0 \<or> p = NaN \<longrightarrow> v = Fin d)
         \<and> (p \<noteq> Fin 0 \<and> p \<noteq> NaN \<longrightarrow> v = p))"
    by (rule conjunct1)
  from bspec [OF this m] p
  have "minProfitAmount (getSettings exampleDb) = Fin 500
     \<and> minProfitAmount (getSettings exampleDb) \<noteq> Fin 0"
    by (simp add: Let_def)
  with m p show ?thesis by simp
qed

section \<open>Capital summary and notional P/L\<close>

lemma foldl_js_add_fin:
  "\<forall>t\<in>set xs. \<exists>a. g t = Fin a \<Longrightarrow>
     foldl (\<lambda>sum t. js_add sum (g t)) (Fin s) xs = Fin (s + sum_list (map (\<lambda>t. finVal (g t)) xs))"
  by (induction xs arbitrary: s) (auto simp: algebra_simps)

lemma TxType_not_ADD: "(ty \<noteq> ADD) = (ty = WITHDRAW)"
  by (cases ty) simp_all

lemma capitalTotals_fin:
  "amounts_finite txs \<Longrightarrow>
     capitalTotals txs (Fin a0) (Fin w0) = (Fin (a0 + sumAmounts ADD txs), Fin (w0 + sumAmounts WITHDRAW txs))"
  by (induction txs arbitrary: a0 w0) (auto simp: amounts_finite_def sumAmounts_def TxType_not_ADD)

lemma page_sums:
  "amounts_finite txs \<Longrightarrow>
     foldl (\<lambda>sum t. js_add sum (tx_amount t)) (Fin 0) (filter (\<lambda>t. tx_type t = ty) txs)
       = Fin (sumAmounts ty txs)"
  using foldl_js_add_fin [of "filter (\<lambda>t. tx_type t = ty) txs" tx_amount 0]
  by (simp add: amounts_finite_def sumAmounts_def)

lemma page_totals:
  assumes "amounts_finite txs" and "totalCapital s = Fin b" and "b \<noteq> 0"
  shows "capitalPageTotals (Some s) txs (Fin iv) (Fin rp) =
     \<lparr>baseCapital = Fin b,
      netCapital = Fin (b + sumAmounts ADD txs - sumAmounts WITHDRAW txs),
      page_availableCapital = Fin (b + sumAmounts ADD txs - sumAmounts WITHDRAW txs - iv + rp),
      page_usedPercent = Fin (if 0 < b + sumAmounts ADD txs - sumAmounts WITHDRAW txs
                              then iv / (b + sumAmounts ADD txs - sumAmounts WITHDRAW txs) * 100
                              else 0)\<rparr>"
  using assms(2,3) by (simp add: capitalPageTotals_def Let_def page_sums [OF assms(1)] js_or_def)

lemma withCalculations_fields:
  "buyPrice (withCalculations st g h) = buyPrice h" "quantity (withCalculations st g h) = quantity h"
  by (simp_all add: withCalculations_def Let_def)

lemma store_invested:
  "totalInvested (getCapitalSummary st) =
     foldl (\<lambda>sum h. js_add sum (js_mul (buyPrice h) (quantity h))) (Fin 0) (holdings st)"
  by (simp add: getCapitalSummary_def getHoldingsWithCalculations_def Let_def foldl_map
        withCalculations_fields split: prod.splits)

lemma store_realized:
  "totalRealizedProfit (getCapitalSummary st) =
     foldl (\<lambda>sum t. js_add sum (profit t)) (Fin 0) (trades st)"
  by (simp add: getCapitalSummary_def Let_def split: prod.splits)

lemma store_totals:
  assumes "amounts_finite (capitalTransactions st)" and "totalCapital (settings st) = Fin b"
  shows "cs_totalCapital (getCapitalSummary st) =
           Fin (b + sumAmounts ADD (capitalTransactions st) - sumAmounts WITHDRAW (capitalTransactions st))"
    and "availableCapital (getCapitalSummary st) =
           js_add (js_sub (cs_totalCapital (getCapitalSummary st)) (totalInvested (getCapitalSummary st)))
             (totalRealizedProfit (getCapitalSummary st))"
    and "usedPercent (getCapitalSummary st) =
           (if js_gt (cs_totalCapital (getCapitalSummary st)) (Fin 0)
            then js_mul (js_div (totalInvested (getCapitalSummary st)) (cs_totalCapital (getCapitalSummary st))) (Fin 100)
            else Fin 0)"
  using capitalTotals_fin [OF assms(1), of b 0] assms(2)
  by (simp_all add: getCapitalSummary_def Let_def split: prod.splits)

lemma exampleTransactions_sums:
  "amounts_finite exampleTransactions"
  "sumAmounts ADD exampleTransactions = 50000" "sumAmounts WITHDRAW exampleTransactions = 20000"
  by (simp_all add: amounts_finite_def sumAmounts_def exampleTransactions_def)

lemma capitalStore_fields:
  "settings capitalStore = defaultSettings" "capitalTransactions capitalStore = exampleTransactions"
  "totalCapital defaultSettings = Fin 500000"
  by (simp_all add: capitalStore_def defaultSettings_def)

lemma capitalStore_sums:
  "totalInvested (getCapitalSummary capitalStore) = Fin 100000"
  "totalRealizedProfit (getCapitalSummary capitalStore) = Fin 5000"
  by (simp_all add: store_invested store_realized capitalStore_def lot1_def)

lemma capitalStore_summary:
  "cs_totalCapital (getCapitalSummary capitalStore) = Fin 530000
   \<and> totalInvested (getCapitalSummary capitalStore) = Fin 100000
   \<and> totalRealizedProfit (getCapitalSummary capitalStore) = Fin 5000
   \<and> availableCapital (getCapitalSummary capitalStore) = Fin 435000
   \<and> usedPercent (getCapitalSummary capitalStore) = Fin (1000 / 53)"
proof -
  have fin: "amounts_finite (capitalTransactions capitalStore)"
    and base: "totalCapital (settings capitalStore) = Fin 500000"
    by (simp_all add: capitalStore_fields exampleTransactions_sums)
  have t: "cs_totalCapital (getCapitalSummary capitalStore) = Fin 530000"
    using store_totals(1) [OF fin base] by (simp add: capitalStore_fields exampleTransactions_sums)
  have a: "availableCapital (getCapitalSummary capitalStore) = Fin 435000"
    using store_totals(2) [OF fin base] by (simp add: t capitalStore_sums)
  have u: "usedPercent (getCapitalSummary capitalStore) = Fin (1000 / 53)"
    using store_totals(3) [OF fin base] by (simp add: t capitalStore_sums)
  show ?thesis
    by (intro conjI t capitalStore_sums a u)
qed

lemma capitalPage_example:
  "capitalPageTotals (Some defaultSettings) exampleTransactions (Fin 100000) (Fin 5000) =
     \<lparr>baseCapital = Fin 500000, netCapital = Fin 530000, page_availableCapital = Fin 435000,
      page_usedPercent = Fin (1000 / 53)\<rparr>"
  using page_totals [OF exampleTransactions_sums(1) capitalStore_fields(3), of 100000 5000]
  by (simp add: exampleTransactions_sums)

lemma used_percent_rounds_to_18_87: "\<bar>1000 / 53 - 18.87\<bar> < (0.005 :: real)"
  by simp

text \<open>
  C6: with finite transaction amounts and a finite base capital \<open>b\<close>, the net capital is
  \<open>b\<close> plus the sum of the ADD amounts minus the sum of the WITHDRAW amounts, the available
  capital is the net capital minus the invested value plus the realized profit, and the used
  percentage is the invested value divided by the net capital times 100, and 0 when the net
  capital is not above 0. This holds of the capital page (whose base capital is the
  setting when that is not 0) and of \<open>getCapitalSummary\<close> in the store, where the invested
  value is the sum of price times quantity over the lots and the realized profit the sum of
  the profits of the trades. With a base of 500000, one ADD of 50000, one WITHDRAW of 20000,
  100000 invested and 5000 realized, the net capital is 530000, the available capital
  435000 and the used percentage 1000/53, which is 18.87 to two decimals.
\<close>

theorem capital_summary_formulas:
  assumes fin: "amounts_finite txs" and base: "totalCapital s = Fin b"
  shows "(let net = b + sumAmounts ADD txs - sumAmounts WITHDRAW txs
      in (b \<noteq> 0 \<longrightarrow>
            capitalPageTotals (Some s) txs (Fin iv) (Fin rp) =
              \<lparr>baseCapital = Fin b, netCapital = Fin net,
               page_availableCapital = Fin (net - iv + rp),
               page_usedPercent = Fin (if 0 < net then iv / net * 100 else 0)\<rparr>)
       \<and> (settings st = s \<and> capitalTransactions st = txs \<longrightarrow>
            cs_totalCapital (getCapitalSummary st) = Fin net
          \<and> totalInvested (getCapitalSummary st) =
              foldl (\<lambda>sum h. js_add sum (js_mul (buyPrice h) (quantity h))) (Fin 0) (holdings st)
          \<and> totalRealizedProfit (getCapitalSummary st) =
              foldl (\<lambda>sum t. js_add sum (profit t)) (Fin 0) (trades st)
          \<and> availableCapital (getCapitalSummary st) =
              js_add (js_sub (Fin net) (totalInvested (getCapitalSummary st)))
                (totalRealizedProfit (getCapitalSummary st))
          \<and> usedPercent (getCapitalSummary st) =
              (if 0 < net
               then js_mul (js_div (totalInvested (getCapitalSummary st)) (Fin net)) (Fin 100)
               else Fin 0)))
    \<and> capitalPageTotals (Some defaultSettings) exampleTransactions (Fin 100000) (Fin 5000) =
        \<lparr>baseCapital = Fin 500000, netCapital = Fin 530000, page_availableCapital = Fin 435000,
         page_usedPercent = Fin (1000 / 53)\<rparr>
    \<and> cs_totalCapital (getCapitalSummary capitalStore) = Fin 530000
    \<and> totalInvested (getCapitalSummary capitalStore) = Fin 100000
    \<and> totalRealizedProfit (getCapitalSummary capitalStore) = Fin 5000
    \<and> availableCapital (getCapitalSummary capitalStore) = Fin 435000
    \<and> usedPercent (getCapitalSummary capitalStore) = Fin (1000 / 53)
    \<and> \<bar>1000 / 53 - 18.87\<bar> < (0.005 :: real)"
proof -
  let ?net = "b + sumAmounts ADD txs - sumAmounts WITHDRAW txs"
  have page: "b \<noteq> 0 \<longrightarrow>
            capitalPageTotals (Some s) txs (Fin iv) (Fin rp) =
              \<lparr>baseCapital = Fin b, netCapital = Fin ?net,
               page_availableCapital = Fin (?net - iv + rp),
               page_usedPercent = Fin (if 0 < ?net then iv / ?net * 100 else 0)\<rparr>"
    using page_totals [OF fin base, of iv rp] by simp
  have store: "settings st = s \<and> capitalTransactions st = txs \<longrightarrow>
            cs_totalCapital (getCapitalSummary st) = Fin ?net
          \<and> totalInvested (getCapitalSummary st) =
              foldl (\<lambda>sum h. js_add sum (js_mul (buyPrice h) (quantity h))) (Fin 0) (holdings st)
          \<and> totalRealizedProfit (getCapitalSummary st) =
              foldl (\<lambda>sum t. js_add sum (profit t)) (Fin 0) (trades st)
          \<and> availableCapital (getCapitalSummary st) =
              js_add (js_sub (Fin ?net) (totalInvested (getCapitalSummary st)))
                (totalRealizedProfit (getCapitalSummary st))
          \<and> usedPercent (getCapitalSummary st) =
              (if 0 < ?net
               then js_mul (js_div (totalInvested (getCapitalSummary st)) (Fin ?net)) (Fin 100)
               else Fin 0)"
  proof (intro impI, elim conjE)
    assume st: "settings st = s" "capitalTransactions st = txs"
    have f: "amounts_finite (capitalTransactions st)" using fin st by simp
    have b': "totalCapital (settings st) = Fin b" using base st by simp
    note tot = store_totals [OF f b']
    have t: "cs_totalCapital (getCapitalSummary st) = Fin ?net"
      using tot(1) st by simp
    have a: "availableCapital (getCapitalSummary st) =
              js_add (js_sub (Fin ?net) (totalInvested (getCapitalSummary st)))
                (totalRealizedProfit (getCapitalSummary st))"
      using tot(2) by (simp only: t)
    have u: "usedPercent (getCapitalSummary st) =
              (if 0 < ?net
               then js_mul (js_div (totalInvested (getCapitalSummary st)) (Fin ?net)) (Fin 100)
               else Fin 0)"
      using tot(3) by (simp only: t js_gt_Fin)
    show "cs_totalCapital (getCapitalSummary st) = Fin ?net
          \<and> totalInvested (getCapitalSummary st) =
              foldl (\<lambda>sum h. js_add sum (js_mul (buyPrice h) (quantity h))) (Fin 0) (holdings st)
          \<and> totalRealizedProfit (getCapitalSummary st) =
              foldl (\<lambda>sum t. js_add sum (profit t)) (Fin 0) (trades st)
          \<and> availableCapital (getCapitalSummary st) =
              js_add (js_sub (Fin ?net) (totalInvested (getCapitalSummary st)))
                (totalRealizedProfit (getCapitalSummary st))
          \<and> usedPercent (getCapitalSummary st) =
              (if 0 < ?net
               then js_mul (js_div (totalInvested (getCapitalSummary st)) (Fin ?net)) (Fin 100)
               else Fin 0)"
      by (intro conjI t store_invested store_realized a u)
  qed
  have gen: "(let net = b + sumAmounts ADD txs - sumAmounts WITHDRAW txs
      in (b \<noteq> 0 \<longrightarrow>
            capitalPageTotals (Some s) txs (Fin iv) (Fin rp) =
              \<lparr>baseCapital = Fin b, netCapital = Fin net,
               page_availableCapital = Fin (net - iv + rp),
               page_usedPercent = Fin (if 0 < net then iv / net * 100 else 0)\<rparr>)
       \<and> (settings st = s \<and> capitalTransactions st = txs \<longrightarrow>
            cs_totalCapital (getCapitalSummary st) = Fin net
          \<and> totalInvested (getCapitalSummary st) =
              foldl (\<lambda>sum h. js_add sum (js_mul (buyPrice h) (quantity h))) (Fin 0) (holdings st)
          \<and> totalRealizedProfit (getCapitalSummary st) =
              foldl (\<lambda>sum t. js_add sum (profit t)) (Fin 0) (trades st)
          \<and> availableCapital (getCapitalSummary st) =
              js_add (js_sub (Fin net) (totalInvested (getCapitalSummary st)))
                (totalRealizedProfit (getCapitalSummary st))
          \<and> usedPercent (getCapitalSummary st) =
              (if 0 < net
               then js_mul (js_div (totalInvested (getCapitalSummary st)) (Fin net)) (Fin 100)
               else Fin 0)))"
    unfolding Let_def using page store by (rule conjI)
  note ex = capitalStore_summary
  show ?thesis
    by (intro conjI gen capitalPage_example ex [THEN conjunct1]
          ex [THEN conjunct2, THEN conjunct1]
          ex [THEN conjunct2, THEN conjunct2, THEN conjunct1]
          ex [THEN conjunct2, THEN conjunct2, THEN conjunct2, THEN conjunct1]
          ex [THEN conjunct2, THEN conjunct2, THEN conjunct2, THEN conjunct2] used_percent_rounds_to_18_87)
qed

theorem capital_summary_formulas_witness:
  "amounts_finite exampleTransactions
   \<and> totalCapital defaultSettings = Fin 500000
   \<and> settings capitalStore = defaultSettings
   \<and> capitalTransactions capitalStore = exampleTransactions
   \<and> netCapital (capitalPageTotals (Some defaultSettings) exampleTransactions (Fin 100000) (Fin 5000))
       = Fin 530000
   \<and> cs_totalCapital (getCapitalSummary capitalStore) = Fin 530000"
proof -
  note f = exampleTransactions_sums(1) and b = capitalStore_fields(3)
  from capital_summary_formulas [OF f b, of 100000 5000 capitalStore]
  have g: "(500000 \<noteq> (0::real) \<longrightarrow>
            capitalPageTotals (Some defaultSettings) exampleTransactions (Fin 100000) (Fin 5000) =
              \<lparr>baseCapital = Fin 500000, netCapital = Fin 530000,
               page_availableCapital = Fin (530000 - 100000 + 5000),
               page_usedPercent = Fin (if (0::real) < 530000 then 100000 / 530000 * 100 else 0)\<rparr>)
       \<and> (settings capitalStore = defaultSettings
            \<and> capitalTransactions capitalStore = exampleTransactions \<longrightarrow>
            cs_totalCapital (getCapitalSummary capitalStore) = Fin 530000)"
    unfolding Let_def exampleTransactions_sums by simp
  have p: "netCapital (capitalPageTotals (Some defaultSettings) exampleTransactions (Fin 100000) (Fin 5000))
       = Fin 530000"
    using g by simp
  have s: "cs_totalCapital (getCapitalSummary capitalStore) = Fin 530000"
    using g capitalStore_fields(1,2) by blast
  show ?thesis
    by (intro conjI f b capitalStore_fields(1) capitalStore_fields(2) p s)
qed

text \<open>
  C8 does not hold of the code: \<open>getHoldingsWithCalculations\<close> divides by the purchase
  price without a guard. For a lot bought at price 0 whose ETF trades at 60 the notional
  P/L percentage is \<open>Infinity\<close>, and when the ETF has no market data (the current price
  then falls back to the purchase price) it is \<open>NaN\<close>; in neither case is it 0.
\<close>

theorem notionalPLPercent_zero_price_unguarded:
  "map notionalPLPercent (getHoldingsWithCalculations zeroPriceStore) = [PInf]
   \<and> map notionalPLPercent (getHoldingsWithCalculations (zeroPriceStore\<lparr>etfs := []\<rparr>)) = [NaN]"
  by (simp add: getHoldingsWithCalculations_def withCalculations_def zeroPriceStore_def
        goldbees_def lot1_def js_or_def Let_def)

end
